theory Spec2Isabelle
  imports Complex_Main "HOL-Library.AList"
begin

section \<open>Errors, provider responses and the transport\<close>

text \<open>
  Values that the handlers throw. \<open>Error msg\<close> is \<^verbatim>\<open>new Error(msg)\<close> raised by the
  source itself; \<open>FetchFailed msg\<close> is the error with which \<^verbatim>\<open>fetch\<close> rejects on a
  network-level failure; the remaining constructors are the errors raised by the
  runtime (property access on \<^verbatim>\<open>undefined\<close>, \<^verbatim>\<open>JSON.parse\<close>, \<^verbatim>\<open>toISOString\<close> on an
  invalid date).
\<close>

datatype error = Error string | FetchFailed string | TypeError | SyntaxError | RangeError

text \<open>The part of a \<^verbatim>\<open>Response\<close> that the handlers read.\<close>

record response =
  status :: nat
  statusText :: string
  body :: string

text \<open>\<^verbatim>\<open>response.ok\<close>: the status is in the range 200..299.\<close>

definition ok :: "response \<Rightarrow> bool" where
  "ok response = (200 \<le> status response \<and> status response \<le> 299)"

text \<open>
  One call of \<^verbatim>\<open>fetch(url, options)\<close> either resolves to a response or rejects. The
  transport gives the outcome of the call made in loop iteration \<open>attempt\<close>; the url
  and the options are the same in every iteration.
\<close>

datatype fetch_result = Responds response | Rejects error

type_synonym transport = "nat \<Rightarrow> fetch_result"

text \<open>
  What a run of the dispatcher does besides returning: the number of calls of
  \<^verbatim>\<open>fetch\<close> and the delays passed to \<^verbatim>\<open>setTimeout\<close>, in milliseconds, in order.
\<close>

record trace =
  attempts :: nat
  delays :: "nat list"

definition called :: "trace \<Rightarrow> trace" where
  "called tr = tr\<lparr>attempts := attempts tr + 1\<rparr>"

definition setTimeout :: "nat \<Rightarrow> trace \<Rightarrow> trace" where
  "setTimeout delay tr = tr\<lparr>delays := delays tr @ [delay]\<rparr>"

section \<open>The request dispatcher: \<^verbatim>\<open>fetchWithRetry\<close>\<close>

text \<open>
  \<^verbatim>\<open>
  async function fetchWithRetry(url, options, maxRetries = 3) {
    let lastError
    for (let attempt = 0; attempt <= maxRetries; attempt++) {
      try {
        const response = await fetch(url, options)
        if ((response.status === 429 || response.status >= 500) && attempt < maxRetries) {
          const delay = Math.pow(2, attempt) * 1000
          await new Promise(resolve => setTimeout(resolve, delay))
          continue
        }
        return response
      } catch (error) {
        lastError = error
        if (attempt < maxRetries) {
          const delay = Math.pow(2, attempt) * 1000
          await new Promise(resolve => setTimeout(resolve, delay))
          continue
        }
      }
    }
    throw lastError || new Error('Max retries exceeded')
  }
  \<close>
  The loop is the recursive function \<open>fetchWithRetry_from\<close>, whose arguments are the
  loop variables; a returned response is \<open>Inr\<close>, the final \<^verbatim>\<open>throw\<close> is \<open>Inl\<close>.
\<close>

function fetchWithRetry_from ::
  "transport \<Rightarrow> int \<Rightarrow> nat \<Rightarrow> error option \<Rightarrow> trace \<Rightarrow> (error + response) \<times> trace" where
  "fetchWithRetry_from fetch maxRetries attempt lastError tr =
    (if int attempt \<le> maxRetries then
       (case fetch attempt of
          Responds response \<Rightarrow>
            if (status response = 429 \<or> status response \<ge> 500) \<and> int attempt < maxRetries
            then fetchWithRetry_from fetch maxRetries (attempt + 1) lastError
                   (setTimeout (2 ^ attempt * 1000) (called tr))
            else (Inr response, called tr)
        | Rejects e \<Rightarrow>
            if int attempt < maxRetries
            then fetchWithRetry_from fetch maxRetries (attempt + 1) (Some e)
                   (setTimeout (2 ^ attempt * 1000) (called tr))
            else fetchWithRetry_from fetch maxRetries (attempt + 1) (Some e) (called tr))
     else (Inl (case lastError of Some e \<Rightarrow> e | None \<Rightarrow> Error ''Max retries exceeded''), tr))"
  by pat_completeness auto
termination
  by (relation "measure (\<lambda>(fetch, maxRetries, attempt, lastError, tr).
        nat (maxRetries + 1 - int attempt))") auto

declare fetchWithRetry_from.simps [simp del]

definition fetchWithRetry :: "transport \<Rightarrow> int \<Rightarrow> (error + response) \<times> trace" where
  "fetchWithRetry fetch maxRetries =
     fetchWithRetry_from fetch maxRetries 0 None \<lparr>attempts = 0, delays = []\<rparr>"

text \<open>
  The outcomes after which the loop goes on when attempts remain: status 429, a status
  of 500 or more, or a rejected call.
\<close>

fun retryable :: "fetch_result \<Rightarrow> bool" where
  "retryable (Responds response) = (status response = 429 \<or> status response \<ge> 500)"
| "retryable (Rejects e) = True"

text \<open>The delay computed in iteration \<open>attempt\<close>: \<^verbatim>\<open>Math.pow(2, attempt) * 1000\<close>.\<close>

definition backoff :: "nat \<Rightarrow> nat" where
  "backoff attempt = 2 ^ attempt * 1000"

text \<open>Transports used as concrete inputs.\<close>

definition response_500 :: response where
  "response_500 = \<lparr>status = 500, statusText = ''Internal Server Error'', body = ''''\<rparr>"

definition always_500 :: transport where
  "always_500 attempt = Responds response_500"

definition always_rejects :: transport where
  "always_rejects attempt =
     Rejects (FetchFailed (if attempt < 3 then ''connection refused'' else ''connection reset''))"

definition response_200 :: response where
  "response_200 = \<lparr>status = 200, statusText = ''OK'', body = ''not even JSON''\<rparr>"

definition responds_200 :: transport where
  "responds_200 attempt = Responds response_200"

section \<open>JSON values and \<^verbatim>\<open>JSON.parse\<close>\<close>

text \<open>
  The values that \<^verbatim>\<open>JSON.parse\<close> produces and \<^verbatim>\<open>JSON.stringify\<close> consumes. An object is
  the list of its properties in insertion order, each name once. Numbers are kept as
  exact rationals (rounding to IEEE doubles is not modelled); strings are over 8-bit
  characters, one per code unit.
\<close>

datatype json =
    JNull
  | JBool bool
  | JNumber rat
  | JString string
  | JArray "json list"
  | JObject "(string \<times> json) list"

definition dquote :: char where "dquote = CHR 0x22"
definition backslash :: char where "backslash = CHR 0x5C"

definition is_ws :: "char \<Rightarrow> bool" where
  "is_ws c = (c = CHR '' '' \<or> c = CHR 0x09 \<or> c = CHR 0x0A \<or> c = CHR 0x0D)"

definition skip_ws :: "string \<Rightarrow> string" where
  "skip_ws s = dropWhile is_ws s"

definition is_digit :: "char \<Rightarrow> bool" where
  "is_digit c = (48 \<le> (of_char c :: nat) \<and> (of_char c :: nat) \<le> 57)"

definition digit_val :: "char \<Rightarrow> nat" where
  "digit_val c = of_char c - 48"

definition digits_val :: "string \<Rightarrow> nat" where
  "digits_val ds = foldl (\<lambda>a c. 10 * a + digit_val c) 0 ds"

definition hex_val :: "char \<Rightarrow> nat option" where
  "hex_val c =
     (let n = (of_char c :: nat) in
      if 48 \<le> n \<and> n \<le> 57 then Some (n - 48)
      else if 65 \<le> n \<and> n \<le> 70 then Some (n - 55)
      else if 97 \<le> n \<and> n \<le> 102 then Some (n - 87)
      else None)"

text \<open>
  The characters of a string literal after its opening quote, up to the closing quote,
  with the escapes decoded. A \<^verbatim>\<open>\u\<close> escape that names a code unit above \<^verbatim>\<open>00FF\<close> has no
  value among 8-bit characters and is not accepted here.
\<close>

fun parse_chars :: "string \<Rightarrow> (string \<times> string) option" where
  "parse_chars [] = None"
| "parse_chars (c # cs) =
    (if c = dquote then Some ([], cs)
     else if c = backslash then
       (case cs of
          [] \<Rightarrow> None
        | e # es \<Rightarrow>
            if e = CHR ''u'' then
              (case es of
                 h1 # h2 # h3 # h4 # rest \<Rightarrow>
                   (case (hex_val h1, hex_val h2, hex_val h3, hex_val h4) of
                      (Some a, Some b, Some c, Some d) \<Rightarrow>
                        if a = 0 \<and> b = 0 then
                          (case parse_chars rest of
                             None \<Rightarrow> None
                           | Some (str, r) \<Rightarrow> Some (char_of (16 * c + d) # str, r))
                        else None
                    | _ \<Rightarrow> None)
               | _ \<Rightarrow> None)
            else
              (case (if e = dquote then Some dquote
                     else if e = backslash then Some backslash
                     else if e = CHR ''/'' then Some (CHR ''/'')
                     else if e = CHR ''b'' then Some (CHR 0x08)
                     else if e = CHR ''f'' then Some (CHR 0x0C)
                     else if e = CHR ''n'' then Some (CHR 0x0A)
                     else if e = CHR ''r'' then Some (CHR 0x0D)
                     else if e = CHR ''t'' then Some (CHR 0x09)
                     else None) of
                 None \<Rightarrow> None
               | Some d \<Rightarrow>
                   (case parse_chars es of
                      None \<Rightarrow> None
                    | Some (str, r) \<Rightarrow> Some (d # str, r))))
     else if (of_char c :: nat) < 32 then None
     else (case parse_chars cs of
             None \<Rightarrow> None
           | Some (str, r) \<Rightarrow> Some (c # str, r)))"

text \<open>
  A number literal: an optional minus sign, an integer part without a leading zero, an
  optional fraction and an optional exponent.
\<close>

definition parse_exponent :: "string \<Rightarrow> (int \<times> string) option" where
  "parse_exponent s =
     (case s of
        [] \<Rightarrow> Some (0, s)
      | c # cs \<Rightarrow>
          if c = CHR ''e'' \<or> c = CHR ''E'' then
            (let (neg, ds) =
                   (case cs of
                      [] \<Rightarrow> (False, cs)
                    | g # gs \<Rightarrow> if g = CHR ''-'' then (True, gs)
                               else if g = CHR ''+'' then (False, gs) else (False, cs));
                 digits = takeWhile is_digit ds
             in if digits = [] then None
                else Some ((if neg then - int (digits_val digits) else int (digits_val digits)),
                           dropWhile is_digit ds))
          else Some (0, s))"

definition parse_fraction :: "string \<Rightarrow> (rat \<times> string) option" where
  "parse_fraction s =
     (case s of
        [] \<Rightarrow> Some (0, s)
      | c # cs \<Rightarrow>
          if c = CHR ''.'' then
            (let digits = takeWhile is_digit cs
             in if digits = [] then None
                else Some (of_nat (digits_val digits) / 10 ^ length digits, dropWhile is_digit cs))
          else Some (0, s))"

definition parse_number :: "string \<Rightarrow> (json \<times> string) option" where
  "parse_number s =
     (let (neg, s1) = (case s of [] \<Rightarrow> (False, s)
                        | c # cs \<Rightarrow> if c = CHR ''-'' then (True, cs) else (False, s));
          digits = takeWhile is_digit s1;
          s2 = dropWhile is_digit s1
      in if digits = [] \<or> (hd digits = CHR ''0'' \<and> length digits > 1) then None
         else
           (case parse_fraction s2 of
              None \<Rightarrow> None
            | Some (fr, s3) \<Rightarrow>
                (case parse_exponent s3 of
                   None \<Rightarrow> None
                 | Some (e, s4) \<Rightarrow>
                     (let m = of_nat (digits_val digits) + fr;
                          v = (if 0 \<le> e then m * 10 ^ nat e else m / 10 ^ nat (- e))
                      in Some (JNumber (if neg then - v else v), s4)))))"

text \<open>
  Values, array elements and object members, by recursive descent. The first argument
  bounds the depth of the recursion. A repeated property name keeps its first position
  and takes the last value.
\<close>

fun parse_value :: "nat \<Rightarrow> string \<Rightarrow> (json \<times> string) option"
  and parse_elements :: "nat \<Rightarrow> json list \<Rightarrow> string \<Rightarrow> (json \<times> string) option"
  and parse_members :: "nat \<Rightarrow> (string \<times> json) list \<Rightarrow> string \<Rightarrow> (json \<times> string) option"
where
  "parse_value 0 s = None"
| "parse_value (Suc n) s =
    (case skip_ws s of
       [] \<Rightarrow> None
     | c # cs \<Rightarrow>
         if c = CHR ''{'' then
           (case skip_ws cs of
              [] \<Rightarrow> None
            | d # ds \<Rightarrow> if d = CHR ''}'' then Some (JObject [], ds) else parse_members n [] cs)
         else if c = CHR ''['' then
           (case skip_ws cs of
              [] \<Rightarrow> None
            | d # ds \<Rightarrow> if d = CHR '']'' then Some (JArray [], ds) else parse_elements n [] cs)
         else if c = dquote then
           (case parse_chars cs of None \<Rightarrow> None | Some (str, r) \<Rightarrow> Some (JString str, r))
         else if take 4 (c # cs) = ''true'' then Some (JBool True, drop 4 (c # cs))
         else if take 5 (c # cs) = ''false'' then Some (JBool False, drop 5 (c # cs))
         else if take 4 (c # cs) = ''null'' then Some (JNull, drop 4 (c # cs))
         else parse_number (c # cs))"
| "parse_elements 0 acc s = None"
| "parse_elements (Suc n) acc s =
    (case parse_value n s of
       None \<Rightarrow> None
     | Some (v, r) \<Rightarrow>
         (case skip_ws r of
            [] \<Rightarrow> None
          | c # cs \<Rightarrow>
              if c = CHR '','' then parse_elements n (acc @ [v]) cs
              else if c = CHR '']'' then Some (JArray (acc @ [v]), cs)
              else None))"
| "parse_members 0 acc s = None"
| "parse_members (Suc n) acc s =
    (case skip_ws s of
       [] \<Rightarrow> None
     | q # s1 \<Rightarrow>
         if q \<noteq> dquote then None
         else
           (case parse_chars s1 of
              None \<Rightarrow> None
            | Some (k, s2) \<Rightarrow>
                (case skip_ws s2 of
                   [] \<Rightarrow> None
                 | colon # s3 \<Rightarrow>
                     if colon \<noteq> CHR '':'' then None
                     else
                       (case parse_value n s3 of
                          None \<Rightarrow> None
                        | Some (v, s4) \<Rightarrow>
                            (case skip_ws s4 of
                               [] \<Rightarrow> None
                             | c # cs \<Rightarrow>
                                 if c = CHR '','' then parse_members n (AList.update k v acc) cs
                                 else if c = CHR ''}'' then Some (JObject (AList.update k v acc), cs)
                                 else None)))))"

text \<open>
  \<^verbatim>\<open>JSON.parse(text)\<close>: \<open>None\<close> is the \<^verbatim>\<open>SyntaxError\<close>. Every recursive call of the descent
  is on a shorter text, or on the same text one step later, so twice the length of the
  text bounds the depth (lemma \<open>JSON_parse_any_depth\<close>).
\<close>

definition JSON_parse :: "string \<Rightarrow> json option" where
  "JSON_parse s =
     (case parse_value (2 * length s + 1) s of
        None \<Rightarrow> None
      | Some (v, rest) \<Rightarrow> if skip_ws rest = [] then Some v else None)"

section \<open>Extracting the JSON text from the provider's reply\<close>

text \<open>
  \<^verbatim>\<open>content.match(/\{[\s\S]*\}/)\<close>. The class \<^verbatim>\<open>[\s\S]\<close> matches every character and the star
  is greedy: at the leftmost \<^verbatim>\<open>{\<close> from which a match exists, the match runs to the
  last \<^verbatim>\<open>}\<close> of the text. \<open>greedy_to_brace\<close> is \<^verbatim>\<open>[\s\S]*\}\<close> anchored at the start of its
  argument: the longest prefix that ends with a closing brace.
\<close>

fun greedy_to_brace :: "string \<Rightarrow> string option" where
  "greedy_to_brace [] = None"
| "greedy_to_brace (c # cs) =
    (case greedy_to_brace cs of
       Some m \<Rightarrow> Some (c # m)
     | None \<Rightarrow> if c = CHR ''}'' then Some [c] else None)"

fun jsonMatch :: "string \<Rightarrow> string option" where
  "jsonMatch [] = None"
| "jsonMatch (c # cs) =
    (if c = CHR ''{'' then
       (case greedy_to_brace cs of
          Some m \<Rightarrow> Some (c # m)
        | None \<Rightarrow> jsonMatch cs)
     else jsonMatch cs)"

text \<open>
  The extraction as the specification words it (section 4.2, step 2a): the first
  balanced top-level brace-delimited substring. \<open>balanced_from d\<close> reads on while \<open>d\<close>
  braces are open and stops at the brace that closes the outermost one.
\<close>

fun balanced_from :: "nat \<Rightarrow> string \<Rightarrow> string option" where
  "balanced_from d [] = None"
| "balanced_from d (c # cs) =
    (if c = CHR ''{'' then map_option ((#) c) (balanced_from (Suc d) cs)
     else if c = CHR ''}'' then
       (if d \<le> 1 then Some [c] else map_option ((#) c) (balanced_from (d - 1) cs))
     else map_option ((#) c) (balanced_from d cs))"

fun spec_first_balanced :: "string \<Rightarrow> string option" where
  "spec_first_balanced [] = None"
| "spec_first_balanced (c # cs) =
    (if c = CHR ''{'' then
       (case balanced_from 1 cs of
          Some m \<Rightarrow> Some (c # m)
        | None \<Rightarrow> spec_first_balanced cs)
     else spec_first_balanced cs)"

section \<open>The parse block of the itinerary and recommendation handlers\<close>

text \<open>
  \<^verbatim>\<open>
  let itinerary
  try {
    const jsonMatch = content.match(/\{[\s\S]*\}/)
    if (jsonMatch) {
      itinerary = JSON.parse(jsonMatch[0])
    } else {
      throw new Error('No JSON found in response')
    }
  } catch (parseError) {
    itinerary = createFallbackItinerary(...)
  }
  \<close>
  The same block stands in the generate-itinerary, comprehensive-itinerary and
  location-recommendations handlers, each with its own fallback builder. \<open>content\<close>
  is a JavaScript value, \<open>None\<close> being \<^verbatim>\<open>undefined\<close>; calling \<^verbatim>\<open>match\<close> on anything but a
  string throws inside the \<^verbatim>\<open>try\<close>. \<open>match_and_parse\<close> is the body of the \<^verbatim>\<open>try\<close>.
\<close>

definition match_and_parse :: "json option \<Rightarrow> error + json" where
  "match_and_parse content =
     (case content of
        Some (JString text) \<Rightarrow>
          (case jsonMatch text of
             Some m \<Rightarrow> (case JSON_parse m of Some v \<Rightarrow> Inr v | None \<Rightarrow> Inl SyntaxError)
           | None \<Rightarrow> Inl (Error ''No JSON found in response''))
      | _ \<Rightarrow> Inl TypeError)"

text \<open>
  The value the block leaves in \<^verbatim>\<open>itinerary\<close>, tagged with its provenance as the
  specification's \<^verbatim>\<open>StructuredResult\<close> is. The second argument is the outcome of the
  fallback builder, which is looked at only in the \<^verbatim>\<open>catch\<close>; an exception of the builder
  leaves the block.
\<close>

datatype structured_result = Parsed json | Fallback json

fun result_value :: "structured_result \<Rightarrow> json" where
  "result_value (Parsed v) = v"
| "result_value (Fallback v) = v"

definition parse_block :: "json option \<Rightarrow> (error + json) \<Rightarrow> error + structured_result" where
  "parse_block content fallback =
     (case match_and_parse content of
        Inr v \<Rightarrow> Inr (Parsed v)
      | Inl parseError \<Rightarrow>
          (case fallback of
             Inr f \<Rightarrow> Inr (Fallback f)
           | Inl e \<Rightarrow> Inl e))"

text \<open>Whether a value is an object that has every one of the given properties.\<close>

fun has_keys :: "string list \<Rightarrow> json \<Rightarrow> bool" where
  "has_keys ks (JObject kvs) = list_all (\<lambda>k. map_of kvs k \<noteq> None) ks"
| "has_keys ks _ = False"




section \<open>The shapes that the prompts lay out\<close>
















section \<open>Dates and decimal numerals\<close>

text \<open>A natural number interpolated into a template literal: its decimal digits.\<close>

function show_nat :: "nat \<Rightarrow> string" where
  "show_nat n =
     (if n < 10 then [''0123456789'' ! n]
      else show_nat (n div 10) @ [''0123456789'' ! (n mod 10)])"
  by pat_completeness auto
termination
  by (relation "measure id") auto

declare show_nat.simps [simp del]

definition pad :: "nat \<Rightarrow> nat \<Rightarrow> string" where
  "pad width n = replicate (width - length (show_nat n)) (CHR ''0'') @ show_nat n"

text \<open>
  The civil date of a number of days since 1970-01-01 in the proleptic Gregorian
  calendar, as year, month and day.
\<close>

definition civil_from_days :: "int \<Rightarrow> int \<times> nat \<times> nat" where
  "civil_from_days z0 =
     (let z = z0 + 719468;
          era = z div 146097;
          doe = z mod 146097;
          yoe = (doe - doe div 1460 + doe div 36524 - doe div 146096) div 365;
          doy = doe - (365 * yoe + yoe div 4 - yoe div 100);
          mp = (5 * doy + 2) div 153;
          d = doy - (153 * mp + 2) div 5 + 1;
          m = (if mp < 10 then mp + 3 else mp - 9);
          y = yoe + era * 400 + (if m \<le> 2 then 1 else 0)
      in (y, nat m, nat d))"

text \<open>
  \<^verbatim>\<open>new Date(t).toISOString().split('T')[0]\<close> for a time value \<open>t\<close> in milliseconds. A time
  value beyond 8.64e15 ms in magnitude makes the date invalid, and \<^verbatim>\<open>toISOString\<close> throws
  a \<^verbatim>\<open>RangeError\<close> on an invalid date. Years outside 0..9999 are written with a sign and
  six digits.
\<close>

definition toISOString_date :: "int \<Rightarrow> error + string" where
  "toISOString_date t =
     (if \<bar>t\<bar> \<le> 8640000000000000 then
        (let (y, m, d) = civil_from_days (t div 86400000);
             year = (if 0 \<le> y \<and> y \<le> 9999 then pad 4 (nat y)
                     else (if y < 0 then ''-'' else ''+'') @ pad 6 (nat \<bar>y\<bar>))
         in Inr (year @ ''-'' @ pad 2 m @ ''-'' @ pad 2 d))
      else Inl RangeError)"

text \<open>
  The date of day \<open>i\<close> of a trip. \<open>start\<close> is the time value of
  \<^verbatim>\<open>new Date(startDate)\<close>, \<open>None\<close> when the text does not parse to a date (the time value
  is then \<^verbatim>\<open>NaN\<close> and stays so after the addition).
\<close>

definition date_of_day :: "int option \<Rightarrow> nat \<Rightarrow> error + string" where
  "date_of_day start i =
     (case start of
        None \<Rightarrow> Inl RangeError
      | Some t \<Rightarrow> toISOString_date (t + int i * 24 * 60 * 60 * 1000))"

text \<open>A loop body run for each index in turn; the first exception ends the loop.\<close>

fun for_each :: "(nat \<Rightarrow> error + 'a) \<Rightarrow> nat list \<Rightarrow> error + 'a list" where
  "for_each f [] = Inr []"
| "for_each f (i # is) =
    (case f i of
       Inl e \<Rightarrow> Inl e
     | Inr x \<Rightarrow> (case for_each f is of Inl e \<Rightarrow> Inl e | Inr xs \<Rightarrow> Inr (x # xs)))"

section \<open>The fallback builder of the generate-itinerary handler\<close>

text \<open>
  \<^verbatim>\<open>
  function createFallbackItinerary(content, destinations, startDate, duration) {
    const days = []
    const startDateObj = new Date(startDate)
    for (let i = 0; i < duration; i++) {
      const currentDate = new Date(startDateObj.getTime() + (i * 24 * 60 * 60 * 1000))
      const destinationIndex = Math.floor(i / Math.ceil(duration / destinations.length))
      const destination = destinations[destinationIndex] || destinations[0]
      days.push({ day: i + 1, date: currentDate.toISOString().split('T')[0],
                  destination, activities: [...] })
    }
    return { days, totalEstimatedCost: duration * 115, travelTips: [...],
             packingRecommendations: [...] }
  }
  \<close>
  \<open>duration\<close> is an integer and \<open>startDate\<close> is the time value of
  \<^verbatim>\<open>new Date(startDate)\<close>, \<open>None\<close> when the text is not a date. With an empty list the
  quotient \<^verbatim>\<open>duration / destinations.length\<close> is \<^verbatim>\<open>Infinity\<close> and the index is 0. The
  argument \<open>content\<close> is not used.
\<close>

definition destinationIndex :: "string list \<Rightarrow> int \<Rightarrow> nat \<Rightarrow> int" where
  "destinationIndex destinations duration i =
     (if destinations = [] then 0
      else \<lfloor>rat_of_nat i / rat_of_int \<lceil>rat_of_int duration / rat_of_nat (length destinations)\<rceil>\<rfloor>)"

text \<open>\<^verbatim>\<open>xs[i]\<close>: \<^verbatim>\<open>undefined\<close> outside the array.\<close>

definition element_at :: "'a list \<Rightarrow> int \<Rightarrow> 'a option" where
  "element_at xs i = (if 0 \<le> i \<and> nat i < length xs then Some (xs ! nat i) else None)"

text \<open>\<^verbatim>\<open>a || b\<close> on strings: \<^verbatim>\<open>undefined\<close> and the empty string are falsy.\<close>

definition or_else :: "string option \<Rightarrow> string option \<Rightarrow> string option" where
  "or_else a b = (case a of None \<Rightarrow> b | Some s \<Rightarrow> if s = [] then b else Some s)"

definition day_destination :: "string list \<Rightarrow> int \<Rightarrow> nat \<Rightarrow> string option" where
  "day_destination destinations duration i =
     or_else (element_at destinations (destinationIndex destinations duration i))
             (element_at destinations 0)"

text \<open>A value interpolated into a template literal.\<close>

fun interpolate :: "string option \<Rightarrow> string" where
  "interpolate None = ''undefined''"
| "interpolate (Some s) = s"

text \<open>A property whose value may be \<^verbatim>\<open>undefined\<close>; \<^verbatim>\<open>JSON.stringify\<close> leaves such a one out.\<close>

fun optional_property :: "string \<Rightarrow> json option \<Rightarrow> (string \<times> json) list" where
  "optional_property k None = []"
| "optional_property k (Some v) = [(k, v)]"

definition fallback_activities :: "string option \<Rightarrow> json" where
  "fallback_activities destination =
     JArray
      [JObject
        ([(''time'', JString ''09:00''),
          (''endTime'', JString ''12:00''),
          (''title'', JString (''Explore '' @ interpolate destination)),
          (''description'',
             JString (''Start your day exploring the highlights of '' @ interpolate destination))]
         @ optional_property ''location'' (map_option JString destination)
         @ [(''type'', JString ''sightseeing''),
            (''priceEstimate'', JNumber 30),
            (''tips'', JString ''Start early to avoid crowds'')]),
       JObject
        [(''time'', JString ''12:00''),
         (''endTime'', JString ''14:00''),
         (''title'', JString ''Local Lunch''),
         (''description'', JString (''Try traditional cuisine in '' @ interpolate destination)),
         (''location'', JString (''Local restaurant in '' @ interpolate destination)),
         (''type'', JString ''dining''),
         (''priceEstimate'', JNumber 25),
         (''tips'', JString ''Ask locals for recommendations'')],
       JObject
        ([(''time'', JString ''14:00''),
          (''endTime'', JString ''17:00''),
          (''title'', JString ''Cultural Experience''),
          (''description'',
             JString (''Visit museums or cultural sites in '' @ interpolate destination))]
         @ optional_property ''location'' (map_option JString destination)
         @ [(''type'', JString ''culture''),
            (''priceEstimate'', JNumber 20),
            (''tips'', JString ''Check for student or group discounts'')]),
       JObject
        [(''time'', JString ''19:00''),
         (''endTime'', JString ''21:00''),
         (''title'', JString ''Dinner''),
         (''description'', JString (''Evening dining experience in '' @ interpolate destination)),
         (''location'', JString (''Restaurant district in '' @ interpolate destination)),
         (''type'', JString ''dining''),
         (''priceEstimate'', JNumber 40),
         (''tips'', JString ''Make reservations in advance'')]]"

text \<open>The object pushed in iteration \<open>i\<close>; \<^verbatim>\<open>toISOString\<close> may throw.\<close>

definition fallback_day :: "string list \<Rightarrow> int option \<Rightarrow> int \<Rightarrow> nat \<Rightarrow> error + json" where
  "fallback_day destinations startDate duration i =
     (let destination = day_destination destinations duration i
      in case date_of_day startDate i of
           Inl e \<Rightarrow> Inl e
         | Inr date \<Rightarrow>
             Inr (JObject
                   ([(''day'', JNumber (of_nat (i + 1))),
                     (''date'', JString date)]
                    @ optional_property ''destination'' (map_option JString destination)
                    @ [(''activities'', fallback_activities destination)])))"

definition createFallbackItinerary ::
  "string \<Rightarrow> string list \<Rightarrow> int option \<Rightarrow> int \<Rightarrow> error + json" where
  "createFallbackItinerary content destinations startDate duration =
     (case for_each (fallback_day destinations startDate duration) [0..<nat duration] of
        Inl e \<Rightarrow> Inl e
      | Inr days \<Rightarrow>
          Inr (JObject
                [(''days'', JArray days),
                 (''totalEstimatedCost'', JNumber (of_int (duration * 115))),
                 (''travelTips'',
                    JArray
                     [JString ''Pack light and bring comfortable walking shoes'',
                      JString ''Keep copies of important documents'',
                      JString ''Learn basic phrases in the local language'',
                      JString ''Research local customs and etiquette'']),
                 (''packingRecommendations'',
                    JArray
                     [JString ''Comfortable walking shoes'',
                      JString ''Weather-appropriate clothing'',
                      JString ''Portable charger'',
                      JString ''Travel adapter'',
                      JString ''First aid kit''])]))"

text \<open>The properties that the prompt of the generate-itinerary handler asks for.\<close>

definition itinerary_keys :: "string list" where
  "itinerary_keys = [''days'', ''totalEstimatedCost'', ''travelTips'', ''packingRecommendations'']"

section \<open>The fallback builder of the comprehensive-itinerary handler\<close>

text \<open>
  The builder of this handler is named \<^verbatim>\<open>createFallbackItinerary\<close> in its file too; here
  it carries the name of its handler in front.

  The request of the comprehensive-itinerary handler. \<open>startDate\<close> holds the time
  value of \<^verbatim>\<open>new Date(request.startDate)\<close>, \<open>None\<close> when the text is not a date.
\<close>

datatype budget_level = Budget | MidRange | Luxury

fun budget_text :: "budget_level \<Rightarrow> string" where
  "budget_text Budget = ''budget''"
| "budget_text MidRange = ''mid-range''"
| "budget_text Luxury = ''luxury''"

datatype travel_style = Relaxed | Balanced | Packed

record DetailedItineraryRequest =
  destination :: string
  duration :: int
  startDate :: "int option"
  budget :: budget_level
  travelStyle :: travel_style
  interests :: "string list"
  groupSize :: int
  accessibility :: "string list option"

text \<open>The element that \<^verbatim>\<open>Array.from({ length: request.duration }, (_, i) => ...)\<close> makes for \<open>i\<close>.\<close>

definition daily_entry :: "DetailedItineraryRequest \<Rightarrow> nat \<Rightarrow> error + json" where
  "daily_entry request i =
     (case date_of_day (startDate request) i of
        Inl e \<Rightarrow> Inl e
      | Inr date \<Rightarrow>
          Inr (JObject
                [(''day'', JNumber (of_nat (i + 1))),
                 (''date'', JString date),
                 (''theme'',
                    JString (if i = 0 then ''Arrival & Orientation''
                             else ''Day '' @ show_nat (i + 1) @ '' Exploration'')),
                 (''morning'',
                    JObject
                     [(''time'', JString ''09:00''),
                      (''activity'', JString (''Explore '' @ destination request @ '' highlights'')),
                      (''location'', JString ''City Center''),
                      (''cost'', JString ''$15''),
                      (''tips'', JArray [JString ''Start early for better photos''])]),
                 (''lunch'',
                    JObject
                     [(''restaurant'', JString (''Midday Caf'' @ [CHR 0xE9])),
                      (''cuisine'', JString ''Local''),
                      (''cost'', JString ''$18''),
                      (''specialties'', JArray [JString ''Daily special'', JString ''Local favorite''])]),
                 (''afternoon'',
                    JObject
                     [(''time'', JString ''14:00''),
                      (''activity'', JString ''Cultural experience''),
                      (''location'', JString ''Heritage District''),
                      (''cost'', JString ''$20''),
                      (''tips'', JArray [JString ''Ask about student discounts''])]),
                 (''dinner'',
                    JObject
                     [(''restaurant'', JString ''Evening Bistro''),
                      (''cuisine'', JString ''Contemporary''),
                      (''cost'', JString ''$35''),
                      (''specialties'', JArray [JString ''Chef's special'', JString ''Local wine''])]),
                 (''evening'',
                    JObject
                     [(''activity'', JString ''Evening walk''),
                      (''location'', JString ''Waterfront''),
                      (''cost'', JString ''Free''),
                      (''tips'', JArray [JString ''Beautiful sunset views''])])]))"

definition min_max :: "int \<Rightarrow> int \<Rightarrow> json" where
  "min_max lo hi = JObject [(''min'', JNumber (of_int lo)), (''max'', JNumber (of_int hi))]"

definition costBreakdown :: "DetailedItineraryRequest \<Rightarrow> json" where
  "costBreakdown request =
     JObject
      [(''accommodation'', min_max (60 * duration request) (400 * duration request)),
       (''food'', min_max (50 * duration request) (120 * duration request)),
       (''activities'', min_max (30 * duration request) (80 * duration request)),
       (''transport'', min_max (25 * duration request) (70 * duration request)),
       (''total'', min_max (165 * duration request) (670 * duration request))]"

definition comprehensive_createFallbackItinerary :: "DetailedItineraryRequest \<Rightarrow> error + json" where
  "comprehensive_createFallbackItinerary request =
     (case for_each (daily_entry request) [0..<nat (duration request)] of
        Inl e \<Rightarrow> Inl e
      | Inr dailyItinerary \<Rightarrow>
          Inr (JObject
                [(''destination'', JString (destination request)),
                 (''overview'',
                    JString (destination request @ '' offers rich cultural experiences and attractions.'')),
                 (''bestTimeToVisit'', JString ''Year-round''),
                 (''safetyRating'', JNumber 8),
                 (''safetyTips'',
                    JArray [JString ''Stay aware of surroundings'', JString ''Use official transportation'']),
                 (''culturalTips'',
                    JArray [JString ''Learn basic local phrases'', JString ''Respect local customs'']),
                 (''hotels'',
                    JArray
                     [JObject
                       [(''name'', JString ''Central Plaza Hotel''),
                        (''category'', JString (budget_text (budget request))),
                        (''priceRange'',
                           JString (if budget request = Budget then ''$60-90''
                                    else if budget request = MidRange then ''$120-180''
                                    else ''$250-400'')),
                        (''location'', JString ''City Center''),
                        (''amenities'', JArray [JString ''WiFi'', JString ''Breakfast'', JString ''Concierge'']),
                        (''rating'', JNumber 4.2),
                        (''bookingTips'', JString ''Book 2 weeks in advance''),
                        (''address'', JString (''Main Square, '' @ destination request))]]),
                 (''restaurants'',
                    JArray
                     [JObject
                       [(''name'', JString ''Local Heritage Restaurant''),
                        (''cuisine'', JString ''Traditional''),
                        (''mealType'', JString ''dinner''),
                        (''priceRange'', JString ''$25-40''),
                        (''specialties'', JArray [JString ''Regional specialty'', JString ''Traditional dessert'']),
                        (''location'', JString ''Historic Quarter''),
                        (''reservationRequired'', JBool True),
                        (''rating'', JNumber 4.6),
                        (''dietaryOptions'', JArray [JString ''Vegetarian options''])]]),
                 (''attractions'',
                    JArray
                     [JObject
                       [(''name'', JString (destination request @ '' Cultural Center'')),
                        (''type'', JString ''Cultural Site''),
                        (''description'', JString ''Main cultural attraction showcasing local heritage''),
                        (''duration'', JString ''2-3 hours''),
                        (''bestTime'', JString ''Morning''),
                        (''ticketPrice'', JString ''$15-20''),
                        (''location'', JString ''Cultural District''),
                        (''crowdLevel'', JString ''moderate''),
                        (''accessibility'', JArray [JString ''Wheelchair accessible'']),
                        (''tips'', JArray [JString ''Free guided tours at 10am and 2pm''])]]),
                 (''transportation'',
                    JObject
                     [(''airport'',
                         JArray
                          [JObject
                            [(''mode'', JString ''Airport Shuttle''),
                             (''description'', JString ''Direct service to city center''),
                             (''cost'', JString ''$15-25''),
                             (''duration'', JString ''45 minutes''),
                             (''bookingInfo'', JString ''Available at arrivals''),
                             (''tips'', JArray [JString ''Runs every 30 minutes'']),
                             (''accessibility'', JArray [JString ''Wheelchair accessible''])]]),
                      (''local'',
                         JArray
                          [JObject
                            [(''mode'', JString ''City Bus''),
                             (''description'', JString ''Comprehensive bus network''),
                             (''cost'', JString ''$2 per ride''),
                             (''duration'', JString ''Varies''),
                             (''bookingInfo'', JString ''Pay on board or use app''),
                             (''tips'', JArray [JString ''Get a day pass for $8'']),
                             (''accessibility'', JArray [JString ''Most buses accessible''])]]),
                      (''intercity'',
                         JArray
                          [JObject
                            [(''mode'', JString ''Regional Train''),
                             (''description'', JString ''Connect to nearby destinations''),
                             (''cost'', JString ''$20-45''),
                             (''duration'', JString ''1-4 hours''),
                             (''bookingInfo'', JString ''Book at station or online''),
                             (''tips'', JArray [JString ''Discounts for advance booking'']),
                             (''accessibility'', JArray [JString ''Accessible cars available''])]])]),
                 (''dailyItinerary'', JArray dailyItinerary),
                 (''costBreakdown'', costBreakdown request),
                 (''packingList'',
                    JArray
                     [JString ''Comfortable walking shoes'',
                      JString ''Weather-appropriate clothing'',
                      JString ''Portable charger'',
                      JString ''Travel documents'',
                      JString ''Camera'',
                      JString ''Sunscreen'']),
                 (''emergencyInfo'',
                    JObject
                     [(''emergencyNumber'', JString ''Emergency services''),
                      (''hospitals'', JArray [JString (destination request @ '' General Hospital'')]),
                      (''embassies'', JArray [JString ''Contact your local embassy'']),
                      (''importantPhones'', JArray [JString ''Tourist information: Local number''])])]))"

text \<open>Reading a property of an object value; \<open>None\<close> when the value has no such property.\<close>

fun property :: "string \<Rightarrow> json \<Rightarrow> json option" where
  "property k (JObject kvs) = map_of kvs k"
| "property k _ = None"

section \<open>HTTP requests and responses of the handlers\<close>

text \<open>
  What a handler answers: the status and the body. \<open>Text\<close> is a plain body (the
  \<^verbatim>\<open>'ok'\<close> of the CORS preflight), \<open>Json v\<close> is \<^verbatim>\<open>JSON.stringify(v)\<close> sent with content type
  \<^verbatim>\<open>application/json\<close>, and \<open>JsonError e\<close> is \<^verbatim>\<open>JSON.stringify({ error: e.message })\<close>, sent
  likewise.
\<close>

datatype http_body = Text string | Json json | JsonError error

record http_response =
  http_status :: nat
  http_body :: http_body

fun is_json :: "http_body \<Rightarrow> bool" where
  "is_json (Text t) = False"
| "is_json (Json v) = True"
| "is_json (JsonError e) = True"

text \<open>
  An incoming request: its method and the outcome of \<^verbatim>\<open>await req.json()\<close>, \<open>None\<close> when
  the body is not JSON and the call rejects. A body is taken to decode to a request
  of the handler's type.
\<close>

record 'a http_request =
  http_method :: string
  json_body :: "'a option"

text \<open>\<^verbatim>\<open>Deno.env.get\<close> for the variables the handlers read; \<open>None\<close> is \<^verbatim>\<open>undefined\<close>.\<close>

record env =
  OPENAI_API_KEY :: "string option"
  SUPABASE_URL :: "string option"
  SUPABASE_SERVICE_ROLE_KEY :: "string option"

text \<open>\<^verbatim>\<open>!value\<close> for a string that may be \<^verbatim>\<open>undefined\<close>.\<close>

definition falsy :: "string option \<Rightarrow> bool" where
  "falsy v = (v = None \<or> v = Some [])"

definition no_trace :: trace where
  "no_trace = \<lparr>attempts = 0, delays = []\<rparr>"

definition preflight :: http_response where
  "preflight = \<lparr>http_status = 200, http_body = Text ''ok''\<rparr>"

section \<open>Reading the provider's reply\<close>

text \<open>
  \<^verbatim>\<open>value.name\<close> for the property names the handlers read (\<^verbatim>\<open>choices\<close>, \<^verbatim>\<open>message\<close>,
  \<^verbatim>\<open>content\<close>), none of which a prototype supplies: reading from \<^verbatim>\<open>undefined\<close> or \<^verbatim>\<open>null\<close>
  throws a \<^verbatim>\<open>TypeError\<close>, an object gives its property, every other value gives
  \<^verbatim>\<open>undefined\<close>.
\<close>

fun get_prop :: "json option \<Rightarrow> string \<Rightarrow> error + json option" where
  "get_prop None k = Inl TypeError"
| "get_prop (Some JNull) k = Inl TypeError"
| "get_prop (Some (JObject kvs)) k = Inr (map_of kvs k)"
| "get_prop (Some v) k = Inr None"

text \<open>\<^verbatim>\<open>value[0]\<close>.\<close>

fun get_first :: "json option \<Rightarrow> error + json option" where
  "get_first None = Inl TypeError"
| "get_first (Some JNull) = Inl TypeError"
| "get_first (Some (JArray xs)) = Inr (case xs of [] \<Rightarrow> None | x # _ \<Rightarrow> Some x)"
| "get_first (Some (JString s)) = Inr (case s of [] \<Rightarrow> None | c # _ \<Rightarrow> Some (JString [c]))"
| "get_first (Some (JObject kvs)) = Inr (map_of kvs ''0'')"
| "get_first (Some v) = Inr None"

text \<open>
  \<^verbatim>\<open>
  const data = await response.json()
  const content = data.choices[0].message.content
  \<close>
\<close>

definition read_content :: "response \<Rightarrow> error + json option" where
  "read_content response =
     (case JSON_parse (body response) of
        None \<Rightarrow> Inl SyntaxError
      | Some data \<Rightarrow>
          (case get_prop (Some data) ''choices'' of
             Inl e \<Rightarrow> Inl e
           | Inr choices \<Rightarrow>
               (case get_first choices of
                  Inl e \<Rightarrow> Inl e
                | Inr choice \<Rightarrow>
                    (case get_prop choice ''message'' of
                       Inl e \<Rightarrow> Inl e
                     | Inr message \<Rightarrow> get_prop message ''content''))))"

section \<open>The chat handlers\<close>

text \<open>A chat message: its \<^verbatim>\<open>role\<close> and its \<^verbatim>\<open>content\<close>.\<close>

type_synonym ChatMessage = "string \<times> string"

record ChatRequest =
  messages :: "ChatMessage list"

definition travel_chat_unavailable :: string where
  "travel_chat_unavailable =
     ''I'm currently unable to access my AI capabilities due to service limitations. '' @
     ''However, I can still help you with general travel advice! Feel free to ask about '' @
     ''popular destinations, travel tips, or planning strategies.''"

definition expert_chat_unavailable :: string where
  "expert_chat_unavailable =
     ''I'm your travel expert assistant, but I'm currently unable to access my full AI '' @
     ''capabilities due to service limitations. I can still provide general travel guidance! '' @
     ''What destination or travel question can I help you with?''"

definition chat_reply :: "json option \<Rightarrow> http_response" where
  "chat_reply text = \<lparr>http_status = 200, http_body = Json (JObject (optional_property ''response'' text))\<rparr>"

text \<open>
  The \<^verbatim>\<open>try\<close> block of the two chat handlers, which differ in the system prompt and in
  the text of the unavailability message only:
  \<^verbatim>\<open>
    const { messages } = await req.json()
    const openaiApiKey = Deno.env.get('OPENAI_API_KEY')
    if (!openaiApiKey) { throw new Error('OpenAI API key not configured') }
    const response = await fetchWithRetry('https://api.openai.com/v1/chat/completions', {...}, 3)
    if (!response.ok) {
      return new Response(JSON.stringify({ response: "I'm currently unable ..." }), {...})
    }
    const data = await response.json()
    const assistantResponse = data.choices[0].message.content
    return new Response(JSON.stringify({ response: assistantResponse }), {...})
  \<close>
  \<open>Inl\<close> is an exception that leaves the block.
\<close>

definition chat_try ::
  "string \<Rightarrow> env \<Rightarrow> transport \<Rightarrow> ChatRequest http_request \<Rightarrow> (error + http_response) \<times> trace" where
  "chat_try unavailable e fetch req =
     (case json_body req of
        None \<Rightarrow> (Inl SyntaxError, no_trace)
      | Some request \<Rightarrow>
          if falsy (OPENAI_API_KEY e) then (Inl (Error ''OpenAI API key not configured''), no_trace)
          else
            (case fetchWithRetry fetch 3 of
               (Inl err, tr) \<Rightarrow> (Inl err, tr)
             | (Inr response, tr) \<Rightarrow>
                 if \<not> ok response then (Inr (chat_reply (Some (JString unavailable))), tr)
                 else
                   (case read_content response of
                      Inl err \<Rightarrow> (Inl err, tr)
                    | Inr assistantResponse \<Rightarrow> (Inr (chat_reply assistantResponse), tr))))"

text \<open>
  The handler: the preflight answer, the \<^verbatim>\<open>try\<close> block, and the \<^verbatim>\<open>catch\<close> that answers
  with the unavailability message and \<^verbatim>\<open>status: 200\<close>.
\<close>

definition chat_handler ::
  "string \<Rightarrow> env \<Rightarrow> transport \<Rightarrow> ChatRequest http_request \<Rightarrow> http_response \<times> trace" where
  "chat_handler unavailable e fetch req =
     (if http_method req = ''OPTIONS'' then (preflight, no_trace)
      else
        (case chat_try unavailable e fetch req of
           (Inr answer, tr) \<Rightarrow> (answer, tr)
         | (Inl err, tr) \<Rightarrow> (chat_reply (Some (JString unavailable)), tr)))"

definition travel_chat :: "env \<Rightarrow> transport \<Rightarrow> ChatRequest http_request \<Rightarrow> http_response \<times> trace" where
  "travel_chat = chat_handler travel_chat_unavailable"

definition travel_expert_chat :: "env \<Rightarrow> transport \<Rightarrow> ChatRequest http_request \<Rightarrow> http_response \<times> trace" where
  "travel_expert_chat = chat_handler expert_chat_unavailable"

section \<open>The comprehensive-itinerary handler\<close>

text \<open>
  The \<^verbatim>\<open>try\<close> block:
  \<^verbatim>\<open>
    const request = await req.json()
    const openaiApiKey = Deno.env.get('OPENAI_API_KEY')
    if (!openaiApiKey) { throw new Error('OpenAI API key not configured') }
    const response = await fetchWithRetry('https://api.openai.com/v1/chat/completions', {...}, 3)
    if (!response.ok) {
      const errorText = await response.text()
      throw new Error(`OpenAI API error: ${response.status} ${response.statusText} - ${errorText}`)
    }
    const data = await response.json()
    const content = data.choices[0].message.content
    let itinerary
    try { ... } catch (parseError) { itinerary = createFallbackItinerary(request) }
    return new Response(JSON.stringify(itinerary), {...})
  \<close>
\<close>

definition comprehensive_try ::
  "env \<Rightarrow> transport \<Rightarrow> DetailedItineraryRequest http_request \<Rightarrow> (error + structured_result) \<times> trace" where
  "comprehensive_try e fetch req =
     (case json_body req of
        None \<Rightarrow> (Inl SyntaxError, no_trace)
      | Some request \<Rightarrow>
          if falsy (OPENAI_API_KEY e) then (Inl (Error ''OpenAI API key not configured''), no_trace)
          else
            (case fetchWithRetry fetch 3 of
               (Inl err, tr) \<Rightarrow> (Inl err, tr)
             | (Inr response, tr) \<Rightarrow>
                 if \<not> ok response then
                   (Inl (Error (''OpenAI API error: '' @ show_nat (status response) @ '' '' @
                                statusText response @ '' - '' @ body response)), tr)
                 else
                   (case read_content response of
                      Inl err \<Rightarrow> (Inl err, tr)
                    | Inr content \<Rightarrow>
                        (parse_block content (comprehensive_createFallbackItinerary request), tr))))"

text \<open>
  The handler. Its \<^verbatim>\<open>catch\<close> answers
  \<^verbatim>\<open>new Response(JSON.stringify({ error: error.message }), { status: 500, ... })\<close>.
\<close>

definition comprehensive_itinerary ::
  "env \<Rightarrow> transport \<Rightarrow> DetailedItineraryRequest http_request \<Rightarrow> http_response \<times> trace" where
  "comprehensive_itinerary e fetch req =
     (if http_method req = ''OPTIONS'' then (preflight, no_trace)
      else
        (case comprehensive_try e fetch req of
           (Inr itinerary, tr) \<Rightarrow> (\<lparr>http_status = 200, http_body = Json (result_value itinerary)\<rparr>, tr)
         | (Inl err, tr) \<Rightarrow> (\<lparr>http_status = 500, http_body = JsonError err\<rparr>, tr)))"

section \<open>The destination-suggestions handler\<close>

text \<open>
  A row of the table \<^verbatim>\<open>destination_suggestions\<close>. The columns that may be \<^verbatim>\<open>NULL\<close> are
  options; \<^verbatim>\<open>popularity_score\<close> is taken to hold a number in every row.
\<close>

record destination_row =
  name :: string
  country :: string
  continent :: string
  description :: "string option"
  popular_for :: "json option"
  best_time :: "string option"
  coordinates :: "json option"
  popularity_score :: int

text \<open>
  The database as the handler meets it: the rows of the table, whether the query of
  this request comes back with an \<^verbatim>\<open>error\<close>, and the filter
  \<^verbatim>\<open>name.ilike.%q%,country.ilike.%q%,description.ilike.%q%\<close> as the database evaluates it.
\<close>

record database =
  table_rows :: "destination_row list"
  query_fails :: bool
  ilike_filter :: "string \<Rightarrow> destination_row \<Rightarrow> bool"

text \<open>
  \<^verbatim>\<open>.order('popularity_score', { ascending: false }).limit(limit)\<close>: the rows by
  descending score, the first \<open>limit\<close> of them.
\<close>

definition order_desc_limit :: "nat \<Rightarrow> destination_row list \<Rightarrow> destination_row list" where
  "order_desc_limit limit rs = take limit (sort_key (\<lambda>r. - popularity_score r) rs)"

text \<open>The two queries; \<open>None\<close> is a result with \<^verbatim>\<open>error\<close> set.\<close>

definition select_popular :: "database \<Rightarrow> nat \<Rightarrow> destination_row list option" where
  "select_popular db limit =
     (if query_fails db then None else Some (order_desc_limit limit (table_rows db)))"

definition select_matching :: "database \<Rightarrow> string \<Rightarrow> nat \<Rightarrow> destination_row list option" where
  "select_matching db query limit =
     (if query_fails db then None
      else Some (order_desc_limit limit (filter (ilike_filter db query) (table_rows db))))"

fun nullable :: "('a \<Rightarrow> json) \<Rightarrow> 'a option \<Rightarrow> json" where
  "nullable f None = JNull"
| "nullable f (Some x) = f x"

text \<open>The object that \<^verbatim>\<open>data.map(item => ({ name: item.name, ... }))\<close> makes of a row.\<close>

definition suggestion_of :: "destination_row \<Rightarrow> json" where
  "suggestion_of item =
     JObject
      [(''name'', JString (name item)),
       (''country'', JString (country item)),
       (''continent'', JString (continent item)),
       (''description'', nullable JString (description item)),
       (''popularFor'', nullable id (popular_for item)),
       (''bestTime'', nullable JString (best_time item)),
       (''coordinates'', nullable id (coordinates item)),
       (''popularityScore'', JNumber (of_int (popularity_score item)))]"

definition fallbackDestinations :: "json list" where
  "fallbackDestinations =
     [JObject
       [(''name'', JString ''Paris''),
        (''country'', JString ''France''),
        (''continent'', JString ''Europe''),
        (''description'', JString ''City of Light and Love''),
        (''popularFor'', JArray [JString ''Art'', JString ''Culture'', JString ''Romance'', JString ''Food'']),
        (''bestTime'', JString ''Apr-Jun, Sep-Oct''),
        (''coordinates'', JObject [(''lat'', JNumber 48.8566), (''lng'', JNumber 2.3522)]),
        (''popularityScore'', JNumber 100)],
      JObject
       [(''name'', JString ''Tokyo''),
        (''country'', JString ''Japan''),
        (''continent'', JString ''Asia''),
        (''description'', JString ''Modern Metropolis''),
        (''popularFor'', JArray [JString ''Technology'', JString ''Food'', JString ''Culture'', JString ''Shopping'']),
        (''bestTime'', JString ''Mar-May, Sep-Nov''),
        (''coordinates'', JObject [(''lat'', JNumber 35.6762), (''lng'', JNumber 139.6503)]),
        (''popularityScore'', JNumber 95)],
      JObject
       [(''name'', JString ''New York''),
        (''country'', JString ''United States''),
        (''continent'', JString ''North America''),
        (''description'', JString ''The Big Apple''),
        (''popularFor'', JArray [JString ''Culture'', JString ''Broadway'', JString ''Food'', JString ''Museums'']),
        (''bestTime'', JString ''Apr-Jun, Sep-Nov''),
        (''coordinates'', JObject [(''lat'', JNumber 40.7128), (''lng'', JNumber (- 74.0060))]),
        (''popularityScore'', JNumber 90)],
      JObject
       [(''name'', JString ''London''),
        (''country'', JString ''United Kingdom''),
        (''continent'', JString ''Europe''),
        (''description'', JString ''Historic Capital''),
        (''popularFor'', JArray [JString ''History'', JString ''Museums'', JString ''Theater'', JString ''Culture'']),
        (''bestTime'', JString ''May-Sep''),
        (''coordinates'', JObject [(''lat'', JNumber 51.5074), (''lng'', JNumber (- 0.1278))]),
        (''popularityScore'', JNumber 85)],
      JObject
       [(''name'', JString ''Rome''),
        (''country'', JString ''Italy''),
        (''continent'', JString ''Europe''),
        (''description'', JString ''Eternal City''),
        (''popularFor'', JArray [JString ''History'', JString ''Architecture'', JString ''Food'', JString ''Art'']),
        (''bestTime'', JString ''Apr-Jun, Sep-Oct''),
        (''coordinates'', JObject [(''lat'', JNumber 41.9028), (''lng'', JNumber 12.4964)]),
        (''popularityScore'', JNumber 80)]]"

text \<open>
  \<^verbatim>\<open>toLowerCase\<close>, \<^verbatim>\<open>includes\<close> and \<^verbatim>\<open>trim\<close> on strings of 8-bit characters.
\<close>

definition lower_char :: "char \<Rightarrow> char" where
  "lower_char c =
     (let n = (of_char c :: nat)
      in if (65 \<le> n \<and> n \<le> 90) \<or> (192 \<le> n \<and> n \<le> 222 \<and> n \<noteq> 215) then char_of (n + 32) else c)"

definition toLowerCase :: "string \<Rightarrow> string" where
  "toLowerCase s = map lower_char s"

fun includes_text :: "string \<Rightarrow> string \<Rightarrow> bool" where
  "includes_text [] needle = (needle = [])"
| "includes_text (c # cs) needle = (take (length needle) (c # cs) = needle \<or> includes_text cs needle)"

definition is_space :: "char \<Rightarrow> bool" where
  "is_space c = (let n = (of_char c :: nat) in (9 \<le> n \<and> n \<le> 13) \<or> n = 32 \<or> n = 160)"

definition trim :: "string \<Rightarrow> string" where
  "trim s = rev (dropWhile is_space (rev (dropWhile is_space s)))"

text \<open>The text of a string property and the strings of an array property of an object.\<close>

definition string_property :: "string \<Rightarrow> json \<Rightarrow> string" where
  "string_property k v = (case property k v of Some (JString s) \<Rightarrow> s | _ \<Rightarrow> [])"

fun strings_of :: "json list \<Rightarrow> string list" where
  "strings_of [] = []"
| "strings_of (JString s # vs) = s # strings_of vs"
| "strings_of (v # vs) = strings_of vs"

definition tags_property :: "string \<Rightarrow> json \<Rightarrow> string list" where
  "tags_property k v = (case property k v of Some (JArray xs) \<Rightarrow> strings_of xs | _ \<Rightarrow> [])"

text \<open>
  \<^verbatim>\<open>
  function getFallbackSuggestions(query) {
    const fallbackDestinations = [...]
    if (!query || query.trim().length === 0) { return fallbackDestinations }
    return fallbackDestinations.filter(dest =>
      dest.name.toLowerCase().includes(query.toLowerCase()) ||
      dest.country.toLowerCase().includes(query.toLowerCase()) ||
      dest.popularFor.some(tag => tag.toLowerCase().includes(query.toLowerCase())))
  }
  \<close>
\<close>

definition getFallbackSuggestions :: "string \<Rightarrow> json list" where
  "getFallbackSuggestions query =
     (if query = [] \<or> length (trim query) = 0 then fallbackDestinations
      else filter (\<lambda>dest.
             includes_text (toLowerCase (string_property ''name'' dest)) (toLowerCase query) \<or>
             includes_text (toLowerCase (string_property ''country'' dest)) (toLowerCase query) \<or>
             list_ex (\<lambda>tag. includes_text (toLowerCase tag) (toLowerCase query))
               (tags_property ''popularFor'' dest))
           fallbackDestinations)"

text \<open>The request body: \<^verbatim>\<open>{ query, limit = 10 }\<close>, either of which may be absent.\<close>

record SuggestionRequest =
  query :: "string option"
  limit :: "nat option"

text \<open>
  \<^verbatim>\<open>createClient(supabaseUrl, supabaseServiceKey)\<close> throws when the url or the key is
  missing.
\<close>

definition createClient :: "env \<Rightarrow> error + unit" where
  "createClient e =
     (if falsy (SUPABASE_URL e) then Inl (Error ''supabaseUrl is required.'')
      else if falsy (SUPABASE_SERVICE_ROLE_KEY e) then Inl (Error ''supabaseKey is required.'')
      else Inr ())"

text \<open>
  The list that the \<^verbatim>\<open>try\<close> block leaves in \<^verbatim>\<open>suggestions\<close>:
  \<^verbatim>\<open>
    const { query, limit = 10 } = await req.json()
    const supabase = createClient(supabaseUrl, supabaseServiceKey)
    let suggestions = []
    if (query && query.trim().length > 0) {
      const { data, error } = await supabase.from('destination_suggestions').select('*')
        .or(`name.ilike.%${query}%,...`).order('popularity_score', { ascending: false }).limit(limit)
      if (error) { suggestions = getFallbackSuggestions(query) }
      else { suggestions = data.map(item => ({...})) }
    } else {
      const { data, error } = await supabase.from('destination_suggestions').select('*')
        .order('popularity_score', { ascending: false }).limit(limit)
      if (error) { suggestions = getFallbackSuggestions('') }
      else { suggestions = data.map(item => ({...})) }
    }
  \<close>
\<close>

definition requested_limit :: "SuggestionRequest \<Rightarrow> nat" where
  "requested_limit request = (case limit request of None \<Rightarrow> 10 | Some l \<Rightarrow> l)"

definition suggestions_try ::
  "env \<Rightarrow> database \<Rightarrow> SuggestionRequest http_request \<Rightarrow> error + json list" where
  "suggestions_try e db req =
     (case json_body req of
        None \<Rightarrow> Inl SyntaxError
      | Some request \<Rightarrow>
          (let n = requested_limit request
           in case createClient e of
                Inl err \<Rightarrow> Inl err
              | Inr supabase \<Rightarrow>
                  (case query request of
                     Some q \<Rightarrow>
                       if q \<noteq> [] \<and> length (trim q) > 0 then
                         (case select_matching db q n of
                            None \<Rightarrow> Inr (getFallbackSuggestions q)
                          | Some data \<Rightarrow> Inr (map suggestion_of data))
                       else
                         (case select_popular db n of
                            None \<Rightarrow> Inr (getFallbackSuggestions '''')
                          | Some data \<Rightarrow> Inr (map suggestion_of data))
                   | None \<Rightarrow>
                       (case select_popular db n of
                          None \<Rightarrow> Inr (getFallbackSuggestions '''')
                        | Some data \<Rightarrow> Inr (map suggestion_of data)))))"

text \<open>
  The handler; its \<^verbatim>\<open>catch\<close> answers with
  \<^verbatim>\<open>{ suggestions: getFallbackSuggestions(''), error: 'Using fallback suggestions' }\<close> and
  \<^verbatim>\<open>status: 200\<close>.
\<close>

definition destination_suggestions ::
  "env \<Rightarrow> database \<Rightarrow> SuggestionRequest http_request \<Rightarrow> http_response" where
  "destination_suggestions e db req =
     (if http_method req = ''OPTIONS'' then preflight
      else
        (case suggestions_try e db req of
           Inr suggestions \<Rightarrow>
             \<lparr>http_status = 200, http_body = Json (JObject [(''suggestions'', JArray suggestions)])\<rparr>
         | Inl err \<Rightarrow>
             \<lparr>http_status = 200,
              http_body = Json (JObject [(''suggestions'', JArray (getFallbackSuggestions '''')),
                                         (''error'', JString ''Using fallback suggestions'')])\<rparr>))"

text \<open>The list sent under \<^verbatim>\<open>suggestions\<close> and the scores of its entries.\<close>

definition sent_suggestions :: "http_response \<Rightarrow> json list" where
  "sent_suggestions answer =
     (case http_body answer of
        Json v \<Rightarrow> (case property ''suggestions'' v of Some (JArray xs) \<Rightarrow> xs | _ \<Rightarrow> [])
      | _ \<Rightarrow> [])"

definition popularityScore :: "json \<Rightarrow> rat" where
  "popularityScore v = (case property ''popularityScore'' v of Some (JNumber x) \<Rightarrow> x | _ \<Rightarrow> 0)"

section \<open>Concrete inputs\<close>

text \<open>Environments with and without the provider key.\<close>

definition live_env :: env where
  "live_env = \<lparr>OPENAI_API_KEY = Some ''sk-test'', SUPABASE_URL = Some ''https://db.example'',
               SUPABASE_SERVICE_ROLE_KEY = Some ''service-key''\<rparr>"

definition env_without_key :: env where
  "env_without_key = \<lparr>OPENAI_API_KEY = None, SUPABASE_URL = Some ''https://db.example'',
                      SUPABASE_SERVICE_ROLE_KEY = Some ''service-key''\<rparr>"

text \<open>A three-day luxury trip to Paris that starts on 2024-03-15, and the request that posts it.\<close>

definition paris_request :: DetailedItineraryRequest where
  "paris_request =
     \<lparr>destination = ''Paris'', duration = 3, startDate = Some 1710460800000, budget = Luxury,
      travelStyle = Balanced, interests = [''art'', ''food''], groupSize = 2,
      accessibility = None\<rparr>"

text \<open>The same trip with a start date such as \<^verbatim>\<open>"next spring"\<close>, which is not a date.\<close>

definition undated_paris_request :: DetailedItineraryRequest where
  "undated_paris_request =
     \<lparr>destination = ''Paris'', duration = 3, startDate = None, budget = Luxury,
      travelStyle = Balanced, interests = [''art'', ''food''], groupSize = 2,
      accessibility = None\<rparr>"

definition paris_post :: "DetailedItineraryRequest http_request" where
  "paris_post = \<lparr>http_method = ''POST'', json_body = Some paris_request\<rparr>"

definition chat_post :: "ChatRequest http_request" where
  "chat_post = \<lparr>http_method = ''POST'',
                 json_body = Some \<lparr>messages = [(''user'', ''Where should I go in May?'')]\<rparr>\<rparr>"

text \<open>A database whose query fails, one with three rows, and searches with an empty query.\<close>

definition down_database :: database where
  "down_database = \<lparr>table_rows = [], query_fails = True, ilike_filter = (\<lambda>q r. False)\<rparr>"

definition row :: "string \<Rightarrow> string \<Rightarrow> int \<Rightarrow> destination_row" where
  "row n c score =
     \<lparr>name = n, country = c, continent = ''Europe'', description = None, popular_for = None,
      best_time = None, coordinates = None, popularity_score = score\<rparr>"

definition small_database :: database where
  "small_database =
     \<lparr>table_rows = [row ''Rome'' ''Italy'' 80, row ''Paris'' ''France'' 100, row ''London'' ''United Kingdom'' 85],
      query_fails = False, ilike_filter = (\<lambda>q r. False)\<rparr>"

definition empty_query_limit_3 :: "SuggestionRequest http_request" where
  "empty_query_limit_3 = \<lparr>http_method = ''POST'', json_body = Some \<lparr>query = Some [], limit = Some 3\<rparr>\<rparr>"

definition empty_query_limit_2 :: "SuggestionRequest http_request" where
  "empty_query_limit_2 = \<lparr>http_method = ''POST'', json_body = Some \<lparr>query = Some [], limit = Some 2\<rparr>\<rparr>"

text \<open>
  Provider replies. \<open>quoted\<close> puts a text between double quotes; \<open>sample_object\<close> is the
  text of an object with the four properties of an itinerary, \<open>sample_members\<close> is what
  stands between its braces, and \<open>sample_value\<close> is what it decodes to.
\<close>

definition quoted :: "string \<Rightarrow> string" where
  "quoted s = dquote # s @ [dquote]"

definition sample_members :: string where
  "sample_members =
     quoted ''days'' @ '':[],'' @ quoted ''totalEstimatedCost'' @ '':0,'' @
     quoted ''travelTips'' @ '':[],'' @ quoted ''packingRecommendations'' @ '':[]''"

definition sample_object :: string where
  "sample_object = CHR ''{'' # sample_members @ [CHR ''}'']"

definition sample_value :: json where
  "sample_value =
     JObject [(''days'', JArray []), (''totalEstimatedCost'', JNumber 0),
              (''travelTips'', JArray []), (''packingRecommendations'', JArray [])]"

definition reply_in_prose :: string where
  "reply_in_prose =
     ''Here is your plan: '' @ CHR ''{'' # sample_members @ CHR ''}'' # '' Enjoy the trip!''"

definition reply_with_stray_brace :: string where
  "reply_with_stray_brace = sample_object @ '' Enjoy the trip :-}''"



section \<open>The depth bound of the JSON decoder\<close>

text \<open>
  Every successful step of the descent leaves a shorter text, and a text that decodes
  at some depth decodes, with the same result, at every depth from twice its length
  on. So the bound in \<open>JSON_parse\<close> never cuts a decoding short.
\<close>

lemma skip_ws_length: "length (skip_ws s) \<le> length s"
  by (simp add: skip_ws_def length_dropWhile_le)

lemma skip_ws_Cons: "skip_ws s = c # cs \<Longrightarrow> length cs < length s"
  using skip_ws_length[of s] by simp

lemma parse_chars_shorter: "parse_chars s = Some (str, r) \<Longrightarrow> length r < length s"
proof (induction "length s" arbitrary: s str r rule: less_induct)
  case less
  have ih: "\<And>s' str'. parse_chars s' = Some (str', r) \<Longrightarrow> length s' < length s \<Longrightarrow> length r < length s'"
    using less.hyps by blast
  show ?case
  proof (cases s)
    case Nil
    with less.prems show ?thesis by simp
  next
    case (Cons c cs)
    with less.prems show ?thesis
      by (auto split: if_splits option.splits list.splits prod.splits dest!: ih)
  qed
qed

lemma dropWhile_shorter:
  "takeWhile P xs \<noteq> [] \<Longrightarrow> length (dropWhile P xs) < length xs"
  by (cases xs) (auto simp: le_imp_less_Suc length_dropWhile_le split: if_splits)

lemma parse_fraction_length: "parse_fraction s = Some (f, r) \<Longrightarrow> length r \<le> length s"
  by (auto simp: parse_fraction_def Let_def le_SucI length_dropWhile_le split: list.splits if_splits)

lemma parse_exponent_length: "parse_exponent s = Some (e, r) \<Longrightarrow> length r \<le> length s"
  by (auto simp: parse_exponent_def Let_def le_SucI length_dropWhile_le
      split: list.splits if_splits prod.splits
      intro: order_trans[OF length_dropWhile_le])

lemma parse_number_shorter: "parse_number s = Some (v, r) \<Longrightarrow> length r < length s"
proof -
  assume a: "parse_number s = Some (v, r)"
  define neg_s1 where "neg_s1 = (case s of [] \<Rightarrow> (False, s)
                        | c # cs \<Rightarrow> if c = CHR ''-'' then (True, cs) else (False, s))"
  define s1 where "s1 = snd neg_s1"
  have s1: "length s1 \<le> length s"
    by (auto simp: s1_def neg_s1_def split: list.splits)
  from a obtain fr s3 e where
    d: "takeWhile is_digit s1 \<noteq> []" and
    f: "parse_fraction (dropWhile is_digit s1) = Some (fr, s3)" and
    x: "parse_exponent s3 = Some (e, r)"
    unfolding parse_number_def s1_def neg_s1_def
    by (auto simp: Let_def split: prod.splits if_splits option.splits)
  from dropWhile_shorter[OF d] parse_fraction_length[OF f] parse_exponent_length[OF x] s1
  show ?thesis by linarith
qed

lemma skip_ws_Cons_le: "skip_ws s = c # cs \<Longrightarrow> Suc (length cs) \<le> length s"
  using skip_ws_length[of s] by simp

lemma descent_shorter:
  "(\<forall>s v r. parse_value n s = Some (v, r) \<longrightarrow> length r < length s) \<and>
   (\<forall>acc s v r. parse_elements n acc s = Some (v, r) \<longrightarrow> length r < length s) \<and>
   (\<forall>acc s v r. parse_members n acc s = Some (v, r) \<longrightarrow> length r < length s)"
proof (induction n)
  case 0
  show ?case by simp
next
  case (Suc n)
  then have ihv: "\<And>s v r. parse_value n s = Some (v, r) \<Longrightarrow> length r < length s"
    and ihe: "\<And>acc s v r. parse_elements n acc s = Some (v, r) \<Longrightarrow> length r < length s"
    and ihm: "\<And>acc s v r. parse_members n acc s = Some (v, r) \<Longrightarrow> length r < length s"
    by blast+
  have v: "length r < length s" if p: "parse_value (Suc n) s = Some (v, r)" for s v r
  proof (cases "skip_ws s")
    case Nil
    with p show ?thesis by simp
  next
    case (Cons c cs)
    note len = skip_ws_Cons_le[OF Cons]
    consider (obj) "c = CHR ''{''" | (arr) "c \<noteq> CHR ''{''" "c = CHR ''[''"
      | (str) "c \<noteq> CHR ''{''" "c \<noteq> CHR ''[''" "c = dquote"
      | (other) "c \<noteq> CHR ''{''" "c \<noteq> CHR ''[''" "c \<noteq> dquote" by blast
    then show ?thesis
    proof cases
      case obj
      show ?thesis
      proof (cases "skip_ws cs")
        case Nil
        with p Cons obj show ?thesis by simp
      next
        case inner: (Cons d ds)
        note l2 = skip_ws_Cons_le[OF inner]
        show ?thesis
        proof (cases "d = CHR ''}''")
          case True
          with p Cons obj inner have "r = ds" by simp
          with l2 len show ?thesis by simp
        next
          case False
          with p Cons obj inner have "parse_members n [] cs = Some (v, r)" by simp
          from ihm[OF this] len show ?thesis by simp
        qed
      qed
    next
      case arr
      show ?thesis
      proof (cases "skip_ws cs")
        case Nil
        with p Cons arr show ?thesis by simp
      next
        case inner: (Cons d ds)
        note l2 = skip_ws_Cons_le[OF inner]
        show ?thesis
        proof (cases "d = CHR '']''")
          case True
          with p Cons arr inner have "r = ds" by simp
          with l2 len show ?thesis by simp
        next
          case False
          with p Cons arr inner have "parse_elements n [] cs = Some (v, r)" by simp
          from ihe[OF this] len show ?thesis by simp
        qed
      qed
    next
      case str
      with p Cons obtain t where "parse_chars cs = Some (t, r)"
        by (auto split: option.splits)
      from parse_chars_shorter[OF this] len show ?thesis by simp
    next
      case other
      with p Cons consider "r = drop 4 (c # cs)" | "r = drop 5 (c # cs)"
        | "parse_number (c # cs) = Some (v, r)"
        by (auto split: if_splits)
      then show ?thesis
      proof cases
        case 3
        from parse_number_shorter[OF this] len show ?thesis by simp
      qed (use len in simp_all)
    qed
  qed
  have e: "length r < length s" if p: "parse_elements (Suc n) acc s = Some (v, r)" for acc s v r
  proof -
    from p obtain x r1 where x: "parse_value n s = Some (x, r1)"
      by (auto split: option.splits)
    note l1 = ihv[OF x]
    from p x obtain c cs where c: "skip_ws r1 = c # cs"
      by (cases "skip_ws r1") auto
    note l2 = skip_ws_Cons_le[OF c]
    from p x c consider "parse_elements n (acc @ [x]) cs = Some (v, r)" | "r = cs"
      by (auto split: if_splits)
    then show ?thesis
    proof cases
      case 1
      from ihe[OF this] l1 l2 show ?thesis by simp
    next
      case 2
      with l1 l2 show ?thesis by simp
    qed
  qed
  have m: "length r < length s" if p: "parse_members (Suc n) acc s = Some (v, r)" for acc s v r
  proof -
    from p obtain q s1 where q: "skip_ws s = q # s1" by (cases "skip_ws s") auto
    note l0 = skip_ws_Cons_le[OF q]
    from p q have qq: "q = dquote" by (auto split: if_splits)
    from p q qq obtain k s2 where k: "parse_chars s1 = Some (k, s2)"
      by (auto split: option.splits)
    note l1 = parse_chars_shorter[OF k]
    from p q qq k obtain colon s3 where s3: "skip_ws s2 = colon # s3"
      by (cases "skip_ws s2") auto
    note l2 = skip_ws_Cons_le[OF s3]
    from p q qq k s3 have col: "colon = CHR '':''" by (auto split: if_splits)
    from p q qq k s3 col obtain x s4 where x: "parse_value n s3 = Some (x, s4)"
      by (auto split: option.splits)
    note l3 = ihv[OF x]
    from p q qq k s3 col x obtain c cs where c: "skip_ws s4 = c # cs"
      by (cases "skip_ws s4") auto
    note l4 = skip_ws_Cons_le[OF c]
    from p q qq k s3 col x c consider
      "parse_members n (AList.update k x acc) cs = Some (v, r)" | "r = cs"
      by (auto split: if_splits)
    then show ?thesis
    proof cases
      case 1
      from ihm[OF this] l0 l1 l2 l3 l4 show ?thesis by simp
    next
      case 2
      with l0 l1 l2 l3 l4 show ?thesis by simp
    qed
  qed
  from v e m show ?case by blast
qed

lemma value_shorter: "parse_value n s = Some (v, r) \<Longrightarrow> length r < length s"
  using descent_shorter[of n] by blast

lemma descent_any_depth:
  "(\<forall>s x m. parse_value n s = Some x \<longrightarrow> 2 * length s + 1 \<le> m \<longrightarrow> parse_value m s = Some x) \<and>
   (\<forall>acc s x m. parse_elements n acc s = Some x \<longrightarrow> 2 * length s + 2 \<le> m \<longrightarrow>
      parse_elements m acc s = Some x) \<and>
   (\<forall>acc s x m. parse_members n acc s = Some x \<longrightarrow> 2 * length s + 2 \<le> m \<longrightarrow>
      parse_members m acc s = Some x)"
proof (induction n)
  case 0
  show ?case by simp
next
  case (Suc n)
  then have ihv: "\<And>s x m. parse_value n s = Some x \<Longrightarrow> 2 * length s + 1 \<le> m \<Longrightarrow> parse_value m s = Some x"
    and ihe: "\<And>acc s x m. parse_elements n acc s = Some x \<Longrightarrow> 2 * length s + 2 \<le> m \<Longrightarrow>
      parse_elements m acc s = Some x"
    and ihm: "\<And>acc s x m. parse_members n acc s = Some x \<Longrightarrow> 2 * length s + 2 \<le> m \<Longrightarrow>
      parse_members m acc s = Some x"
    by blast+
  have v: "parse_value m s = Some x"
    if p: "parse_value (Suc n) s = Some x" and m: "2 * length s + 1 \<le> m" for s x m
  proof -
    from m obtain k where k: "m = Suc k" by (cases m) auto
    show ?thesis
    proof (cases "skip_ws s")
      case Nil
      with p show ?thesis by simp
    next
      case (Cons c cs)
      note len = skip_ws_Cons_le[OF Cons]
      have same: "parse_members k [] cs = parse_members n [] cs"
        if "parse_members n [] cs = Some x"
        using ihm[OF that, of k] that len m k by simp
      have same': "parse_elements k [] cs = parse_elements n [] cs"
        if "parse_elements n [] cs = Some x"
        using ihe[OF that, of k] that len m k by simp
      show ?thesis
      proof (cases "c = CHR ''{''")
        case True
        show ?thesis
        proof (cases "skip_ws cs")
          case Nil
          with p Cons True show ?thesis by simp
        next
          case inner: (Cons d ds)
          show ?thesis
          proof (cases "d = CHR ''}''")
            case True
            with p Cons \<open>c = CHR ''{''\<close> inner show ?thesis by (simp add: k)
          next
            case False
            with p Cons True inner have "parse_members n [] cs = Some x" by simp
            with same Cons True inner False show ?thesis by (simp add: k)
          qed
        qed
      next
        case nobj: False
        show ?thesis
        proof (cases "c = CHR ''[''")
          case True
          show ?thesis
          proof (cases "skip_ws cs")
            case Nil
            with p Cons nobj True show ?thesis by simp
          next
            case inner: (Cons d ds)
            show ?thesis
            proof (cases "d = CHR '']''")
              case True
              with p Cons nobj \<open>c = CHR ''[''\<close> inner show ?thesis by (simp add: k)
            next
              case False
              with p Cons nobj True inner have "parse_elements n [] cs = Some x" by simp
              with same' Cons nobj True inner False show ?thesis by (simp add: k)
            qed
          qed
        next
          case False
          with p Cons nobj show ?thesis by (simp add: k)
        qed
      qed
    qed
  qed
  have e: "parse_elements m acc s = Some x"
    if p: "parse_elements (Suc n) acc s = Some x" and m: "2 * length s + 2 \<le> m" for acc s x m
  proof -
    from m obtain k where k: "m = Suc k" by (cases m) auto
    from p obtain y r1 where y: "parse_value n s = Some (y, r1)"
      by (auto split: option.splits)
    note l1 = value_shorter[OF y]
    have y': "parse_value k s = Some (y, r1)" using ihv[OF y, of k] m k by simp
    from p y obtain c cs where c: "skip_ws r1 = c # cs" by (cases "skip_ws r1") auto
    note l2 = skip_ws_Cons_le[OF c]
    show ?thesis
    proof (cases "c = CHR '',''")
      case True
      with p y c have "parse_elements n (acc @ [y]) cs = Some x" by simp
      from ihe[OF this, of k] l1 l2 m k have "parse_elements k (acc @ [y]) cs = Some x" by simp
      with y' c True show ?thesis by (simp add: k)
    next
      case False
      with p y c y' show ?thesis by (simp add: k)
    qed
  qed
  have mm: "parse_members m acc s = Some x"
    if p: "parse_members (Suc n) acc s = Some x" and m: "2 * length s + 2 \<le> m" for acc s x m
  proof -
    from m obtain k where k: "m = Suc k" by (cases m) auto
    from p obtain q s1 where q: "skip_ws s = q # s1" by (cases "skip_ws s") auto
    note l0 = skip_ws_Cons_le[OF q]
    from p q have qq: "q = dquote" by (auto split: if_splits)
    from p q qq obtain key s2 where key: "parse_chars s1 = Some (key, s2)"
      by (auto split: option.splits)
    note l1 = parse_chars_shorter[OF key]
    from p q qq key obtain colon s3 where s3: "skip_ws s2 = colon # s3"
      by (cases "skip_ws s2") auto
    note l2 = skip_ws_Cons_le[OF s3]
    from p q qq key s3 have col: "colon = CHR '':''" by (auto split: if_splits)
    from p q qq key s3 col obtain y s4 where y: "parse_value n s3 = Some (y, s4)"
      by (auto split: option.splits)
    note l3 = value_shorter[OF y]
    have y': "parse_value k s3 = Some (y, s4)" using ihv[OF y, of k] m k l0 l1 l2 by simp
    from p q qq key s3 col y obtain c cs where c: "skip_ws s4 = c # cs"
      by (cases "skip_ws s4") auto
    note l4 = skip_ws_Cons_le[OF c]
    show ?thesis
    proof (cases "c = CHR '',''")
      case True
      with p q qq key s3 col y c have "parse_members n (AList.update key y acc) cs = Some x" by simp
      from ihm[OF this, of k] l0 l1 l2 l3 l4 m k
      have "parse_members k (AList.update key y acc) cs = Some x" by simp
      with q qq key s3 col y' c True show ?thesis by (simp add: k)
    next
      case False
      with p q qq key s3 col y y' c show ?thesis by (simp add: k)
    qed
  qed
  from v e mm show ?case by blast
qed

text \<open>No depth of descent decodes a text that \<open>JSON_parse\<close> rejects, or decodes it otherwise.\<close>

lemma JSON_parse_any_depth:
  assumes "parse_value n s = Some (v, r)" and "skip_ws r = []"
  shows "JSON_parse s = Some v"
proof -
  from descent_any_depth[of n] assms(1)
  have "parse_value (2 * length s + 1) s = Some (v, r)" by blast
  with assms(2) show ?thesis by (simp add: JSON_parse_def)
qed

section \<open>Properties of the dispatcher\<close>

lemma from_past_end:
  "maxRetries < int attempt \<Longrightarrow>
   fetchWithRetry_from fetch maxRetries attempt lastError tr =
     (Inl (case lastError of Some e \<Rightarrow> e | None \<Rightarrow> Error ''Max retries exceeded''), tr)"
  by (subst fetchWithRetry_from.simps) simp

lemma from_deliver:
  assumes "int attempt \<le> maxRetries" "fetch attempt = Responds r" "\<not> retryable (fetch attempt)"
  shows "fetchWithRetry_from fetch maxRetries attempt lastError tr = (Inr r, called tr)"
  using assms by (subst fetchWithRetry_from.simps) auto

lemma from_last_response:
  assumes "int attempt = maxRetries" "fetch attempt = Responds r"
  shows "fetchWithRetry_from fetch maxRetries attempt lastError tr = (Inr r, called tr)"
  using assms by (subst fetchWithRetry_from.simps) auto

lemma from_last_reject:
  assumes "int attempt = maxRetries" "fetch attempt = Rejects e"
  shows "fetchWithRetry_from fetch maxRetries attempt lastError tr = (Inl e, called tr)"
  using assms by (subst fetchWithRetry_from.simps) (simp add: from_past_end)

lemma from_retry:
  assumes "int attempt < maxRetries" "retryable (fetch attempt)"
  shows "fetchWithRetry_from fetch maxRetries attempt lastError tr =
         fetchWithRetry_from fetch maxRetries (attempt + 1)
           (case fetch attempt of Responds r \<Rightarrow> lastError | Rejects e \<Rightarrow> Some e)
           (setTimeout (backoff attempt) (called tr))"
  using assms
  by (subst fetchWithRetry_from.simps) (auto simp: backoff_def split: fetch_result.splits)

lemma trace_after:
  "attempts (setTimeout d (called tr)) = attempts tr + 1"
  "delays (setTimeout d (called tr)) = delays tr @ [d]"
  "attempts (called tr) = attempts tr + 1"
  "delays (called tr) = delays tr"
  by (simp_all add: setTimeout_def called_def)

lemma from_deliver_at:
  assumes "a \<le> j" "int j \<le> maxRetries" "\<forall>k. a \<le> k \<and> k < j \<longrightarrow> retryable (fetch k)"
    "fetch j = Responds r" "\<not> retryable (fetch j)"
  shows "fetchWithRetry_from fetch maxRetries a lastError tr =
           (Inr r, \<lparr>attempts = attempts tr + (j - a) + 1, delays = delays tr @ map backoff [a..<j]\<rparr>)"
  using assms
proof (induction "j - a" arbitrary: a lastError tr)
  case 0
  then have "a = j" by simp
  with 0 show ?case by (simp add: from_deliver called_def)
next
  case (Suc n)
  then have lt: "a < j" and n: "n = j - (a + 1)" by simp_all
  from lt Suc.prems have r: "retryable (fetch a)" "int a < maxRetries" by auto
  have ih: "fetchWithRetry_from fetch maxRetries (a + 1) le' tr' =
           (Inr r, \<lparr>attempts = attempts tr' + (j - (a + 1)) + 1, delays = delays tr' @ map backoff [a + 1..<j]\<rparr>)" for le' tr'
    using Suc.hyps(1)[OF n] Suc.prems lt by simp
  have "fetchWithRetry_from fetch maxRetries a lastError tr =
        fetchWithRetry_from fetch maxRetries (a + 1)
           (case fetch a of Responds r \<Rightarrow> lastError | Rejects e \<Rightarrow> Some e)
           (setTimeout (backoff a) (called tr))"
    by (rule from_retry[where fetch=fetch and attempt=a, OF r(2) r(1)])
  also have "\<dots> = (Inr r, \<lparr>attempts = attempts tr + 1 + (j - (a + 1)) + 1,
        delays = (delays tr @ [backoff a]) @ map backoff [a + 1..<j]\<rparr>)"
    unfolding ih trace_after ..
  also have "\<dots> = (Inr r, \<lparr>attempts = attempts tr + (j - a) + 1, delays = delays tr @ map backoff [a..<j]\<rparr>)"
    using lt by (simp add: upt_conv_Cons)
  finally show ?case .
qed

lemma from_exhaust_at:
  assumes "int a \<le> maxRetries" "\<forall>k. a \<le> k \<and> int k \<le> maxRetries \<longrightarrow> retryable (fetch k)"
  shows "fetchWithRetry_from fetch maxRetries a lastError tr =
           (case fetch (nat maxRetries) of Responds r \<Rightarrow> Inr r | Rejects e \<Rightarrow> Inl e,
            \<lparr>attempts = attempts tr + (nat maxRetries - a) + 1,
             delays = delays tr @ map backoff [a..<nat maxRetries]\<rparr>)"
  using assms
proof (induction "nat maxRetries - a" arbitrary: a lastError tr)
  case 0
  then have eq: "int a = maxRetries" "nat maxRetries = a" by simp_all
  show ?case
    by (cases "fetch a") (simp_all add: eq from_last_response[OF eq(1)] from_last_reject[OF eq(1)] called_def)
next
  case (Suc n)
  then have lt: "int a < maxRetries" "a < nat maxRetries" and n: "n = nat maxRetries - (a + 1)" by simp_all
  from Suc.prems have r: "retryable (fetch a)" by auto
  have ih: "fetchWithRetry_from fetch maxRetries (a + 1) le' tr' =
           (case fetch (nat maxRetries) of Responds r \<Rightarrow> Inr r | Rejects e \<Rightarrow> Inl e,
            \<lparr>attempts = attempts tr' + (nat maxRetries - (a + 1)) + 1,
             delays = delays tr' @ map backoff [a + 1..<nat maxRetries]\<rparr>)" for le' tr'
    using Suc.hyps(1)[OF n] Suc.prems lt by simp
  have "fetchWithRetry_from fetch maxRetries a lastError tr =
        fetchWithRetry_from fetch maxRetries (a + 1)
           (case fetch a of Responds r \<Rightarrow> lastError | Rejects e \<Rightarrow> Some e)
           (setTimeout (backoff a) (called tr))"
    by (rule from_retry[where fetch=fetch and attempt=a, OF lt(1) r])
  also have "\<dots> = (case fetch (nat maxRetries) of Responds r \<Rightarrow> Inr r | Rejects e \<Rightarrow> Inl e,
        \<lparr>attempts = attempts tr + 1 + (nat maxRetries - (a + 1)) + 1,
        delays = (delays tr @ [backoff a]) @ map backoff [a + 1..<nat maxRetries]\<rparr>)"
    unfolding ih trace_after ..
  also have "\<dots> = (case fetch (nat maxRetries) of Responds r \<Rightarrow> Inr r | Rejects e \<Rightarrow> Inl e,
        \<lparr>attempts = attempts tr + (nat maxRetries - a) + 1,
        delays = delays tr @ map backoff [a..<nat maxRetries]\<rparr>)"
    using lt by (simp add: upt_conv_Cons)
  finally show ?case .
qed


lemma from_trace:
  "\<exists>n. attempts (snd (fetchWithRetry_from fetch maxRetries a lastError tr)) = attempts tr + n \<and>
       delays (snd (fetchWithRetry_from fetch maxRetries a lastError tr)) =
         delays tr @ map backoff [a..<a + n - 1] \<and>
       (int a \<le> maxRetries \<longrightarrow> 1 \<le> n)"
proof (induction "nat (maxRetries + 1 - int a)" arbitrary: a lastError tr)
  case 0
  then have past: "maxRetries < int a" by simp
  then have "fetchWithRetry_from fetch maxRetries a lastError tr =
     (Inl (case lastError of Some e \<Rightarrow> e | None \<Rightarrow> Error ''Max retries exceeded''), tr)"
    by (rule from_past_end)
  with past show ?case by (intro exI[of _ 0]) simp
next
  case (Suc k)
  then have le: "int a \<le> maxRetries" and k: "k = nat (maxRetries + 1 - int (a + 1))" by simp_all
  show ?case
  proof (cases "int a < maxRetries \<and> retryable (fetch a)")
    case True
    then have lt: "int a < maxRetries" and r: "retryable (fetch a)" by simp_all
    define le' where "le' = (case fetch a of Responds r \<Rightarrow> lastError | Rejects e \<Rightarrow> Some e)"
    define tr1 where "tr1 = setTimeout (backoff a) (called tr)"
    have step: "fetchWithRetry_from fetch maxRetries a lastError tr =
        fetchWithRetry_from fetch maxRetries (a + 1) le' tr1"
      unfolding le'_def tr1_def by (rule from_retry[where fetch=fetch and attempt=a, OF lt r])
    from Suc.hyps(1)[OF k, of le' tr1] obtain n where
      n: "attempts (snd (fetchWithRetry_from fetch maxRetries (a + 1) le' tr1)) = attempts tr1 + n"
         "delays (snd (fetchWithRetry_from fetch maxRetries (a + 1) le' tr1)) =
            delays tr1 @ map backoff [a + 1..<a + 1 + n - 1]"
         "int (a + 1) \<le> maxRetries \<longrightarrow> 1 \<le> n"
      by blast
    from n(3) lt have n1: "1 \<le> n" by simp
    have t1: "attempts tr1 = attempts tr + 1" "delays tr1 = delays tr @ [backoff a]"
      by (simp_all add: tr1_def trace_after)
    have upt: "[a..<a + (n + 1) - 1] = a # [a + 1..<a + 1 + n - 1]"
      using n1 by (simp add: upt_conv_Cons)
    show ?thesis
      apply (rule exI[of _ "n + 1"])
      unfolding step n(1) n(2) t1 upt
      by simp
  next
    case False
    then consider (resp) r where "fetch a = Responds r" "\<not> retryable (fetch a) \<or> int a = maxRetries"
      | (rej) e where "fetch a = Rejects e" "int a = maxRetries"
      using le by (cases "fetch a") auto
    then have "\<exists>res. fetchWithRetry_from fetch maxRetries a lastError tr = (res, called tr)"
    proof cases
      case resp
      then show ?thesis
        using le from_deliver[where attempt=a and maxRetries=maxRetries and fetch=fetch and r=r and lastError=lastError and tr=tr]
          from_last_response[where attempt=a and maxRetries=maxRetries and fetch=fetch and r=r and lastError=lastError and tr=tr]
        by auto
    next
      case rej
      then show ?thesis
        using from_last_reject[where attempt=a and maxRetries=maxRetries and fetch=fetch and e=e and lastError=lastError and tr=tr] by auto
    qed
    then obtain res where "fetchWithRetry_from fetch maxRetries a lastError tr = (res, called tr)" ..
    then show ?thesis by (intro exI[of _ 1]) (simp add: trace_after)
  qed
qed


subsection \<open>Non-retryable statuses are delivered at once\<close>

text \<open>
  Claim C6. A response whose status is neither 429 nor 500 or more is returned by the
  very iteration that received it, with no further call of \<^verbatim>\<open>fetch\<close>: when the
  iterations before \<open>j\<close> all saw retryable outcomes and iteration \<open>j\<close> (one of the
  \<open>maxRetries + 1\<close> allowed) receives such a response \<open>r\<close>, the dispatcher returns \<open>r\<close>
  itself, body untouched, after exactly \<open>j + 1\<close> calls. With \<open>j = 0\<close> and status 200
  this is one call and the delivered response.
\<close>

theorem non_retryable_delivered_at_once:
  assumes "int j \<le> maxRetries"
    and "\<forall>k<j. retryable (fetch k)"
    and "fetch j = Responds r"
    and "status r \<noteq> 429" and "status r < 500"
  shows "fetchWithRetry fetch maxRetries =
           (Inr r, \<lparr>attempts = j + 1, delays = map backoff [0..<j]\<rparr>)"
proof -
  have "\<not> retryable (fetch j)" using assms(3-5) by simp
  then show ?thesis
    unfolding fetchWithRetry_def
    using from_deliver_at[where a=0 and j=j and fetch=fetch and maxRetries=maxRetries and r=r
        and lastError=None and tr="\<lparr>attempts = 0, delays = []\<rparr>"] assms(1-3)
    by simp
qed

text \<open>Claim C6, at a transport that answers the first call with status 200 and a body that is not JSON.\<close>

theorem non_retryable_delivered_at_once_witness:
  "status response_200 = 200 \<and> body response_200 = ''not even JSON'' \<and>
   fetchWithRetry responds_200 3 = (Inr response_200, \<lparr>attempts = 1, delays = []\<rparr>)"
  using non_retryable_delivered_at_once[where j=0 and maxRetries=3 and fetch=responds_200
      and r=response_200]
  by (simp add: responds_200_def response_200_def)

subsection \<open>Exhausting the attempts\<close>

text \<open>
  Claim C3 (as stated, refuted). With status 500 on every attempt and \<open>maxRetries = 3\<close>
  the dispatcher calls \<^verbatim>\<open>fetch\<close> four times and then returns the last response: the
  final iteration fails the test \<^verbatim>\<open>attempt < maxRetries\<close> and falls to
  \<^verbatim>\<open>return response\<close>. Nothing is thrown, so the outcome is not \<open>Exhausted\<close>.
\<close>

theorem always_500_is_delivered:
  "status response_500 = 500 \<and>
   fetchWithRetry always_500 3 =
     (Inr response_500, \<lparr>attempts = 4, delays = [1000, 2000, 4000]\<rparr>) \<and>
   \<not> isl (fst (fetchWithRetry always_500 3))"
  by code_simp

text \<open>
  Claim C3 (amended). When every one of the \<open>maxRetries + 1\<close> attempts has a retryable
  outcome, the dispatcher makes exactly \<open>maxRetries + 1\<close> calls and the last attempt
  decides the result: a network error on the last attempt is thrown (it is the most
  recent network error), a bad status on the last attempt is returned as the
  response.
\<close>

theorem exhaustion_decided_by_last_attempt:
  assumes "0 \<le> maxRetries"
    and "\<forall>k. int k \<le> maxRetries \<longrightarrow> retryable (fetch k)"
  shows "fetchWithRetry fetch maxRetries =
           (case fetch (nat maxRetries) of Responds r \<Rightarrow> Inr r | Rejects e \<Rightarrow> Inl e,
            \<lparr>attempts = nat maxRetries + 1, delays = map backoff [0..<nat maxRetries]\<rparr>)"
  unfolding fetchWithRetry_def
  using from_exhaust_at[where a=0 and fetch=fetch and maxRetries=maxRetries
      and lastError=None and tr="\<lparr>attempts = 0, delays = []\<rparr>"] assms
  by simp

text \<open>Claim C3 (amended), at a transport that rejects every call, and one that answers every call with status 500.\<close>

theorem exhaustion_decided_by_last_attempt_witness:
  "fetchWithRetry always_rejects 3 =
     (Inl (FetchFailed ''connection reset''),
      \<lparr>attempts = 4, delays = map backoff [0..<3]\<rparr>) \<and>
   fetchWithRetry always_500 3 =
     (Inr response_500, \<lparr>attempts = 4, delays = map backoff [0..<3]\<rparr>)"
  using exhaustion_decided_by_last_attempt[where maxRetries=3 and fetch=always_rejects]
    exhaustion_decided_by_last_attempt[where maxRetries=3 and fetch=always_500]
  by (simp add: always_rejects_def always_500_def response_500_def)

text \<open>
  The synthetic error \<^verbatim>\<open>new Error('Max retries exceeded')\<close> is what the dispatcher
  throws when the loop body never runs.
\<close>

lemma synthetic_error_without_attempt:
  "maxRetries < 0 \<Longrightarrow>
   fetchWithRetry fetch maxRetries =
     (Inl (Error ''Max retries exceeded''), \<lparr>attempts = 0, delays = []\<rparr>)"
  unfolding fetchWithRetry_def by (simp add: from_past_end)

subsection \<open>The backoff schedule\<close>

text \<open>
  Claim C4 (as stated, refuted). The delay that precedes retry attempt 1 is the first
  delay of the run. It is 1000 ms, not \<open>2 ^ 1 * 1000\<close> ms: the exponent is the index of
  the attempt that failed, which is one less than the index of the retry.
\<close>

theorem delay_before_first_retry:
  "delays (snd (fetchWithRetry always_500 3)) = [1000, 2000, 4000] \<and>
   delays (snd (fetchWithRetry always_500 3)) ! 0 \<noteq> 2 ^ 1 * 1000"
  by code_simp

text \<open>
  Claim C4 (amended). In every run the delays are \<open>2 ^ k * 1000\<close> ms for
  \<open>k = 0, 1, 2, \<dots>\<close>, one after each attempt except the last one made: the delay before
  retry attempt \<open>n\<close> is \<open>2 ^ (n - 1) * 1000\<close> ms (1000, 2000, 4000 over three retries)
  and no delay follows the final attempt.
\<close>

theorem backoff_schedule:
  "delays (snd (fetchWithRetry fetch maxRetries)) =
     map (\<lambda>k. 2 ^ k * 1000) [0..<attempts (snd (fetchWithRetry fetch maxRetries)) - 1]"
proof -
  obtain n where
    "attempts (snd (fetchWithRetry fetch maxRetries)) = n"
    "delays (snd (fetchWithRetry fetch maxRetries)) = map backoff [0..<0 + n - 1]"
    unfolding fetchWithRetry_def
    using from_trace[of fetch maxRetries 0 None "\<lparr>attempts = 0, delays = []\<rparr>"] by auto
  then show ?thesis by (simp add: backoff_def)
qed

section \<open>Properties of the parse block\<close>

lemma greedy_none: "CHR ''}'' \<notin> set s \<Longrightarrow> greedy_to_brace s = None"
  by (induction s) auto

lemma greedy_to_last:
  "CHR ''}'' \<notin> set post \<Longrightarrow> greedy_to_brace (mid @ CHR ''}'' # post) = Some (mid @ [CHR ''}''])"
  by (induction mid) (simp_all add: greedy_none)

lemma jsonMatch_skip: "CHR ''{'' \<notin> set pre \<Longrightarrow> jsonMatch (pre @ s) = jsonMatch s"
  by (induction pre) auto

lemma jsonMatch_first_to_last:
  assumes "CHR ''{'' \<notin> set pre" "CHR ''}'' \<notin> set post"
  shows "jsonMatch (pre @ CHR ''{'' # mid @ CHR ''}'' # post) = Some (CHR ''{'' # mid @ [CHR ''}''])"
  using assms by (simp add: jsonMatch_skip greedy_to_last)

text \<open>
  Claim C5 (amended). The match of the regular expression runs from the first opening
  brace of the text to its last closing brace, whatever stands between them. So when
  the prose before an embedded object has no opening brace and the prose after it has
  no closing brace, the match is exactly the text of the object, and when that text
  decodes the block yields the decoded value as \<open>Parsed\<close>.
\<close>

theorem embedded_object_is_parsed:
  assumes "CHR ''{'' \<notin> set pre" and "CHR ''}'' \<notin> set post"
    and "JSON_parse (CHR ''{'' # mid @ [CHR ''}'']) = Some v"
  shows "jsonMatch (pre @ CHR ''{'' # mid @ CHR ''}'' # post) = Some (CHR ''{'' # mid @ [CHR ''}'']) \<and>
         parse_block (Some (JString (pre @ CHR ''{'' # mid @ CHR ''}'' # post))) fallback = Inr (Parsed v)"
  using assms jsonMatch_first_to_last[OF assms(1,2), of mid]
  by (simp add: parse_block_def match_and_parse_def)

text \<open>Claim C5 (amended), at a reply that wraps an object in prose without braces.\<close>

theorem embedded_object_is_parsed_witness:
  "JSON_parse sample_object = Some sample_value \<and>
   jsonMatch reply_in_prose = Some sample_object \<and>
   parse_block (Some (JString reply_in_prose)) (Inl RangeError) = Inr (Parsed sample_value)"
proof -
  have p: "JSON_parse (CHR ''{'' # sample_members @ [CHR ''}'']) = Some sample_value"
    by code_simp
  have a: "CHR ''{'' \<notin> set ''Here is your plan: ''" and b: "CHR ''}'' \<notin> set '' Enjoy the trip!''"
    by simp_all
  show ?thesis
    using embedded_object_is_parsed[OF a b p, of "Inl RangeError"] p
    unfolding reply_in_prose_def sample_object_def by simp
qed

text \<open>
  Claim C5 (as stated, refuted). In this reply a single well-formed object with every
  property of an itinerary is followed by prose that ends in a smiley with a closing
  brace. The first balanced brace-delimited substring is the object, but the match of
  the regular expression is the whole reply, which does not decode, and the block
  yields the fallback.
\<close>

theorem stray_brace_defeats_extraction:
  "spec_first_balanced reply_with_stray_brace = Some sample_object \<and>
   JSON_parse sample_object = Some sample_value \<and>
   has_keys itinerary_keys sample_value \<and>
   jsonMatch reply_with_stray_brace = Some reply_with_stray_brace \<and>
   jsonMatch reply_with_stray_brace \<noteq> spec_first_balanced reply_with_stray_brace \<and>
   match_and_parse (Some (JString reply_with_stray_brace)) = Inl SyntaxError \<and>
   parse_block (Some (JString reply_with_stray_brace))
     (createFallbackItinerary reply_with_stray_brace [''Paris''] (Some 1710460800000) 1) \<noteq>
     Inr (Parsed sample_value)"
  by code_simp

section \<open>Properties of the fallback builders\<close>

lemma for_each_Inr:
  "for_each f js = Inr xs \<Longrightarrow> length xs = length js \<and> (\<forall>k<length js. f (js ! k) = Inr (xs ! k))"
proof (induction js arbitrary: xs)
  case Nil
  then show ?case by simp
next
  case (Cons j js)
  then obtain x ys where x: "f j = Inr x" and ys: "for_each f js = Inr ys" and xs: "xs = x # ys"
    by (auto split: sum.splits)
  from Cons.IH[OF ys] have ih: "length ys = length js" "\<forall>k<length js. f (js ! k) = Inr (ys ! k)"
    by simp_all
  show ?case
  proof (intro conjI allI impI)
    show "length xs = length (j # js)" using ih(1) xs by simp
  next
    fix k assume "k < length (j # js)"
    then show "f ((j # js) ! k) = Inr (xs ! k)"
      using x ih(2) xs by (cases k) simp_all
  qed
qed

lemma for_each_returns:
  "\<forall>j\<in>set js. \<not> isl (f j) \<Longrightarrow> \<not> isl (for_each f js)"
  by (induction js) (auto split: sum.splits)

lemma destinationIndex_bounds:
  assumes "ds \<noteq> []" "0 < d" "i < nat d"
  shows "0 \<le> destinationIndex ds d i \<and> destinationIndex ds d i < int (length ds)"
proof -
  define n where "n = rat_of_nat (length ds)"
  define c where "c = \<lceil>rat_of_int d / n\<rceil>"
  have n: "0 < n" using assms(1) by (simp add: n_def)
  have "rat_of_int d / n \<le> rat_of_int c" unfolding c_def by (rule le_of_int_ceiling)
  then have dn: "rat_of_int d \<le> rat_of_int c * n"
    using n by (simp add: pos_divide_le_eq)
  have "0 < rat_of_int d / n" using assms(2) n by simp
  then have "0 < c" unfolding c_def by (simp only: ceiling_less_iff less_ceiling_iff of_int_0)
  then have c: "0 < rat_of_int c" by simp
  have "int i < d" using assms(2,3) by linarith
  then have "rat_of_int (int i) < rat_of_int d" by (simp only: of_int_less_iff)
  then have "rat_of_nat i < rat_of_int c * n" using dn by simp
  then have "rat_of_nat i / rat_of_int c < n"
    using c by (simp add: pos_divide_less_eq mult.commute)
  then have up: "\<lfloor>rat_of_nat i / rat_of_int c\<rfloor> < int (length ds)"
    unfolding n_def by (simp add: floor_less_iff)
  have "0 \<le> rat_of_nat i / rat_of_int c" using c by simp
  then have lo: "0 \<le> \<lfloor>rat_of_nat i / rat_of_int c\<rfloor>" by simp
  show ?thesis using up lo assms(1) by (simp add: destinationIndex_def c_def n_def)
qed

lemma day_destination_in_list:
  assumes "ds \<noteq> []" "0 < d" "i < nat d"
  shows "\<exists>x\<in>set ds. day_destination ds d i = Some x"
proof -
  from destinationIndex_bounds[OF assms]
  have b: "0 \<le> destinationIndex ds d i" "nat (destinationIndex ds d i) < length ds"
    by (simp_all add: nat_less_iff)
  have e: "element_at ds (destinationIndex ds d i) = Some (ds ! nat (destinationIndex ds d i))"
    using b by (simp add: element_at_def)
  have z: "element_at ds 0 = Some (ds ! 0)" using assms(1) by (simp add: element_at_def)
  have "day_destination ds d i = Some (ds ! nat (destinationIndex ds d i)) \<or>
        day_destination ds d i = Some (ds ! 0)"
    by (simp add: day_destination_def e z or_else_def)
  moreover have "ds ! nat (destinationIndex ds d i) \<in> set ds" using b(2) by simp
  moreover have "ds ! 0 \<in> set ds" using assms(1) by simp
  ultimately show ?thesis by auto
qed

lemma fallback_day_destination:
  assumes "fallback_day ds sd d i = Inr day" "day_destination ds d i = Some x"
  shows "property ''destination'' day = Some (JString x)"
  using assms by (auto simp: fallback_day_def Let_def split: sum.splits)

text \<open>
  Claim C10. For a non-empty list of destinations and a positive duration, the index
  computed for every day is within the list, and in the itinerary that the builder
  returns there are as many days as the duration says and the \<^verbatim>\<open>destination\<close> of every
  day is present and is an element of the list.
\<close>

theorem fallback_destination_in_list:
  assumes "ds \<noteq> []" and "0 < d" and "createFallbackItinerary c ds sd d = Inr v"
  shows "\<exists>days. property ''days'' v = Some (JArray days) \<and> length days = nat d \<and>
           (\<forall>i<nat d. 0 \<le> destinationIndex ds d i \<and> destinationIndex ds d i < int (length ds) \<and>
                       (\<exists>x\<in>set ds. property ''destination'' (days ! i) = Some (JString x)))"
proof -
  from assms(3) obtain days where
    days: "for_each (fallback_day ds sd d) [0..<nat d] = Inr days" and
    v: "property ''days'' v = Some (JArray days)"
    by (auto simp: createFallbackItinerary_def split: sum.splits)
  from for_each_Inr[OF days] have len: "length days = nat d"
    and each: "\<forall>k<nat d. fallback_day ds sd d k = Inr (days ! k)" by simp_all
  have "\<exists>x\<in>set ds. property ''destination'' (days ! i) = Some (JString x)" if "i < nat d" for i
  proof -
    from day_destination_in_list[OF assms(1,2) that]
    obtain x where x: "x \<in> set ds" "day_destination ds d i = Some x" by blast
    from each that have "fallback_day ds sd d i = Inr (days ! i)" by simp
    from fallback_day_destination[OF this x(2)] x(1) show ?thesis by blast
  qed
  then show ?thesis using v len destinationIndex_bounds[OF assms(1,2)] by blast
qed

text \<open>Claim C10, at two destinations and three days from 2024-03-15.\<close>

theorem fallback_destination_in_list_witness:
  "\<exists>v days. createFallbackItinerary [] [''Paris'', ''Rome''] (Some 1710460800000) 3 = Inr v \<and>
     property ''days'' v = Some (JArray days) \<and> length days = 3 \<and>
     (\<forall>i<3. \<exists>x\<in>set [''Paris'', ''Rome'']. property ''destination'' (days ! i) = Some (JString x))"
proof -
  have "\<not> isl (createFallbackItinerary [] [''Paris'', ''Rome''] (Some 1710460800000) 3)"
    by code_simp
  then obtain v where v: "createFallbackItinerary [] [''Paris'', ''Rome''] (Some 1710460800000) 3 = Inr v"
    by (cases "createFallbackItinerary [] [''Paris'', ''Rome''] (Some 1710460800000) 3") auto
  from fallback_destination_in_list[OF _ _ v] v show ?thesis by auto
qed

lemma toISOString_date_returns:
  "\<bar>t\<bar> \<le> 8640000000000000 \<Longrightarrow> \<not> isl (toISOString_date t)"
  by (simp add: toISOString_date_def Let_def split: prod.splits)

subsection \<open>The builders return, and what they return has the shape of the prompt\<close>

text \<open>
  A builder formats one date for each day. It returns when the start date is a date and
  the last day is still one; what it returns then conforms to the shape that the prompt
  of its handler lays out, every nested property included. The builder of the simple
  itinerary needs a destination for that: on an empty list every day lacks
  \<^verbatim>\<open>destination\<close>.
\<close>

lemma date_of_day_returns:
  assumes "- 8640000000000000 \<le> s" and "s + (d - 1) * 86400000 \<le> 8640000000000000"
    and "i < nat d"
  shows "\<not> isl (date_of_day (Some s) i)"
proof -
  from assms(3) have i: "int i \<le> d - 1" by linarith
  have "int i * 86400000 \<le> (d - 1) * 86400000" using i by simp
  then have "\<bar>s + int i * 24 * 60 * 60 * 1000\<bar> \<le> 8640000000000000"
    using assms(1,2) by simp
  then have "\<not> isl (toISOString_date (s + int i * 24 * 60 * 60 * 1000))"
    by (rule toISOString_date_returns)
  then show ?thesis by (simp add: date_of_day_def)
qed








lemma comprehensive_fallback_returns:
  assumes "startDate r = Some s" and "- 8640000000000000 \<le> s"
    and "s + (duration r - 1) * 86400000 \<le> 8640000000000000"
  shows "\<not> isl (comprehensive_createFallbackItinerary r)"
proof -
  have "\<not> isl (daily_entry r j)" if "j \<in> set [0..<nat (duration r)]" for j
  proof -
    from that have "j < nat (duration r)" by simp
    from date_of_day_returns[OF assms(2,3) this] show ?thesis
      by (cases "date_of_day (Some s) j") (simp_all add: daily_entry_def assms(1))
  qed
  then have "\<not> isl (for_each (daily_entry r) [0..<nat (duration r)])"
    using for_each_returns by blast
  then show ?thesis
    by (cases "for_each (daily_entry r) [0..<nat (duration r)]")
       (simp_all add: comprehensive_createFallbackItinerary_def)
qed

subsection \<open>The fallback for Paris, three days, luxury\<close>

text \<open>
  Claim C7 (as stated, refuted). The claim is made for every request with destination
  Paris, duration 3 and budget luxury. A request with these three fields whose start
  date is not a date makes the builder throw \<^verbatim>\<open>RangeError\<close> on the first day: it returns
  no itinerary at all.
\<close>

theorem undated_request_throws:
  "destination undated_paris_request = ''Paris'' \<and> duration undated_paris_request = 3 \<and>
   budget undated_paris_request = Luxury \<and>
   comprehensive_createFallbackItinerary undated_paris_request = Inl RangeError"
  by code_simp

text \<open>
  Claim C7 (amended). For every request with destination Paris, duration 3 and budget
  luxury whose start date is a date, the two days that follow it being dates too, the
  builder returns an itinerary whose \<^verbatim>\<open>dailyItinerary\<close> has exactly three entries,
  numbered 1 to 3, each with the \<^verbatim>\<open>morning\<close>, \<^verbatim>\<open>lunch\<close>, \<^verbatim>\<open>afternoon\<close>, \<^verbatim>\<open>dinner\<close> and
  \<^verbatim>\<open>evening\<close> sub-entries that the builder writes for Paris, and whose cost breakdown
  is three times the bounds for one day in every category, \<open>165 * 3\<close> to \<open>670 * 3\<close> in
  total.
\<close>

theorem paris_luxury_fallback:
  assumes "destination r = ''Paris''" and "duration r = 3" and "budget r = Luxury"
    and "startDate r = Some t"
    and "- 8640000000000000 \<le> t" and "t + 2 * 86400000 \<le> 8640000000000000"
  shows "\<exists>v days.
           comprehensive_createFallbackItinerary r = Inr v \<and>
           property ''dailyItinerary'' v = Some (JArray days) \<and> length days = 3 \<and>
           (\<forall>i<3.
              property ''day'' (days ! i) = Some (JNumber (of_nat (i + 1))) \<and>
              property ''morning'' (days ! i) =
                Some (JObject
                       [(''time'', JString ''09:00''),
                        (''activity'', JString ''Explore Paris highlights''),
                        (''location'', JString ''City Center''),
                        (''cost'', JString ''$15''),
                        (''tips'', JArray [JString ''Start early for better photos''])]) \<and>
              property ''lunch'' (days ! i) =
                Some (JObject
                       [(''restaurant'', JString (''Midday Caf'' @ [CHR 0xE9])),
                        (''cuisine'', JString ''Local''),
                        (''cost'', JString ''$18''),
                        (''specialties'', JArray [JString ''Daily special'', JString ''Local favorite''])]) \<and>
              property ''afternoon'' (days ! i) =
                Some (JObject
                       [(''time'', JString ''14:00''),
                        (''activity'', JString ''Cultural experience''),
                        (''location'', JString ''Heritage District''),
                        (''cost'', JString ''$20''),
                        (''tips'', JArray [JString ''Ask about student discounts''])]) \<and>
              property ''dinner'' (days ! i) =
                Some (JObject
                       [(''restaurant'', JString ''Evening Bistro''),
                        (''cuisine'', JString ''Contemporary''),
                        (''cost'', JString ''$35''),
                        (''specialties'', JArray [JString ''Chef's special'', JString ''Local wine''])]) \<and>
              property ''evening'' (days ! i) =
                Some (JObject
                       [(''activity'', JString ''Evening walk''),
                        (''location'', JString ''Waterfront''),
                        (''cost'', JString ''Free''),
                        (''tips'', JArray [JString ''Beautiful sunset views''])])) \<and>
           property ''costBreakdown'' v =
             Some (JObject
                    [(''accommodation'', JObject [(''min'', JNumber (60 * 3)), (''max'', JNumber (400 * 3))]),
                     (''food'', JObject [(''min'', JNumber (50 * 3)), (''max'', JNumber (120 * 3))]),
                     (''activities'', JObject [(''min'', JNumber (30 * 3)), (''max'', JNumber (80 * 3))]),
                     (''transport'', JObject [(''min'', JNumber (25 * 3)), (''max'', JNumber (70 * 3))]),
                     (''total'', JObject [(''min'', JNumber (165 * 3)), (''max'', JNumber (670 * 3))])])"
proof -
  have r3: "t + (duration r - 1) * 86400000 \<le> 8640000000000000" using assms(2,6) by simp
  from comprehensive_fallback_returns[OF assms(4,5) r3]
  obtain v where v: "comprehensive_createFallbackItinerary r = Inr v"
    by (cases "comprehensive_createFallbackItinerary r") auto
  then obtain days where days: "for_each (daily_entry r) [0..<nat (duration r)] = Inr days"
    by (cases "for_each (daily_entry r) [0..<nat (duration r)]")
       (simp_all add: comprehensive_createFallbackItinerary_def)
  from for_each_Inr[OF days] assms(2) have len: "length days = 3"
    and each: "\<forall>k<3. daily_entry r k = Inr (days ! k)" by simp_all
  have vv: "v = projr (comprehensive_createFallbackItinerary r)" using v by simp
  have d: "property ''dailyItinerary'' v = Some (JArray days)"
    unfolding vv comprehensive_createFallbackItinerary_def days by simp
  have c: "property ''costBreakdown'' v = Some (costBreakdown r)"
    unfolding vv comprehensive_createFallbackItinerary_def days by simp
  have cb: "costBreakdown r =
             JObject
                    [(''accommodation'', JObject [(''min'', JNumber (60 * 3)), (''max'', JNumber (400 * 3))]),
                     (''food'', JObject [(''min'', JNumber (50 * 3)), (''max'', JNumber (120 * 3))]),
                     (''activities'', JObject [(''min'', JNumber (30 * 3)), (''max'', JNumber (80 * 3))]),
                     (''transport'', JObject [(''min'', JNumber (25 * 3)), (''max'', JNumber (70 * 3))]),
                     (''total'', JObject [(''min'', JNumber (165 * 3)), (''max'', JNumber (670 * 3))])]"
    by (simp add: costBreakdown_def min_max_def assms(2))
  have entry: "property ''day'' (days ! i) = Some (JNumber (of_nat (i + 1))) \<and>
              property ''morning'' (days ! i) =
                Some (JObject
                       [(''time'', JString ''09:00''),
                        (''activity'', JString ''Explore Paris highlights''),
                        (''location'', JString ''City Center''),
                        (''cost'', JString ''$15''),
                        (''tips'', JArray [JString ''Start early for better photos''])]) \<and>
              property ''lunch'' (days ! i) =
                Some (JObject
                       [(''restaurant'', JString (''Midday Caf'' @ [CHR 0xE9])),
                        (''cuisine'', JString ''Local''),
                        (''cost'', JString ''$18''),
                        (''specialties'', JArray [JString ''Daily special'', JString ''Local favorite''])]) \<and>
              property ''afternoon'' (days ! i) =
                Some (JObject
                       [(''time'', JString ''14:00''),
                        (''activity'', JString ''Cultural experience''),
                        (''location'', JString ''Heritage District''),
                        (''cost'', JString ''$20''),
                        (''tips'', JArray [JString ''Ask about student discounts''])]) \<and>
              property ''dinner'' (days ! i) =
                Some (JObject
                       [(''restaurant'', JString ''Evening Bistro''),
                        (''cuisine'', JString ''Contemporary''),
                        (''cost'', JString ''$35''),
                        (''specialties'', JArray [JString ''Chef's special'', JString ''Local wine''])]) \<and>
              property ''evening'' (days ! i) =
                Some (JObject
                       [(''activity'', JString ''Evening walk''),
                        (''location'', JString ''Waterfront''),
                        (''cost'', JString ''Free''),
                        (''tips'', JArray [JString ''Beautiful sunset views''])])"
    if "i < 3" for i
  proof -
    from each that have e: "daily_entry r i = Inr (days ! i)" by simp
    then obtain date where "date_of_day (startDate r) i = Inr date"
      by (cases "date_of_day (startDate r) i") (simp_all add: daily_entry_def)
    with e have "days ! i = projr (daily_entry r i)" by simp
    then show ?thesis
      unfolding daily_entry_def \<open>date_of_day (startDate r) i = Inr date\<close>
      by (simp add: assms(1))
  qed
  show ?thesis using v d len entry c cb by (intro exI[of _ v] exI[of _ days]) simp
qed

text \<open>Claim C7 (amended), at the request that starts on 2024-03-15.\<close>

theorem paris_luxury_fallback_witness:
  "destination paris_request = ''Paris'' \<and> duration paris_request = 3 \<and>
   budget paris_request = Luxury \<and> startDate paris_request = Some 1710460800000 \<and>
   (\<exists>v days.
      comprehensive_createFallbackItinerary paris_request = Inr v \<and>
      property ''dailyItinerary'' v = Some (JArray days) \<and> length days = 3 \<and>
      (\<forall>i<3.
         property ''morning'' (days ! i) =
           Some (JObject
                  [(''time'', JString ''09:00''),
                   (''activity'', JString ''Explore Paris highlights''),
                   (''location'', JString ''City Center''),
                   (''cost'', JString ''$15''),
                   (''tips'', JArray [JString ''Start early for better photos''])]) \<and>
         property ''evening'' (days ! i) =
           Some (JObject
                  [(''activity'', JString ''Evening walk''),
                   (''location'', JString ''Waterfront''),
                   (''cost'', JString ''Free''),
                   (''tips'', JArray [JString ''Beautiful sunset views''])])) \<and>
      (\<exists>cost. property ''costBreakdown'' v = Some cost \<and>
         property ''total'' cost = Some (JObject [(''min'', JNumber 495), (''max'', JNumber 2010)])))"
proof -
  have a: "destination paris_request = ''Paris''" "duration paris_request = 3"
    "budget paris_request = Luxury" "startDate paris_request = Some 1710460800000"
    by (simp_all add: paris_request_def)
  from paris_luxury_fallback[OF a] obtain v days where
    "comprehensive_createFallbackItinerary paris_request = Inr v"
    "property ''dailyItinerary'' v = Some (JArray days)" "length days = 3"
    "\<forall>i<3.
         property ''morning'' (days ! i) =
           Some (JObject
                  [(''time'', JString ''09:00''),
                   (''activity'', JString ''Explore Paris highlights''),
                   (''location'', JString ''City Center''),
                   (''cost'', JString ''$15''),
                   (''tips'', JArray [JString ''Start early for better photos''])]) \<and>
         property ''evening'' (days ! i) =
           Some (JObject
                  [(''activity'', JString ''Evening walk''),
                   (''location'', JString ''Waterfront''),
                   (''cost'', JString ''Free''),
                   (''tips'', JArray [JString ''Beautiful sunset views''])])"
    "\<exists>cost. property ''costBreakdown'' v = Some cost \<and>
         property ''total'' cost = Some (JObject [(''min'', JNumber 495), (''max'', JNumber 2010)])"
    by auto
  with a show ?thesis by blast
qed

subsection \<open>The fallback replaces a reply that does not decode\<close>






section \<open>Properties of the handlers\<close>

text \<open>
  Claim C9. With no provider key in the environment, each chat handler answers every
  request other than the preflight with status 200 and its unavailability message,
  and \<^verbatim>\<open>fetch\<close> is never called: the handler throws before the dispatcher is reached
  and its \<^verbatim>\<open>catch\<close> builds the answer. Nothing leaves the handler but this answer.
\<close>

theorem chat_without_key:
  assumes "OPENAI_API_KEY e = None" and "http_method req \<noteq> ''OPTIONS''"
  shows "travel_chat e fetch req =
           (\<lparr>http_status = 200,
             http_body = Json (JObject [(''response'', JString travel_chat_unavailable)])\<rparr>,
            \<lparr>attempts = 0, delays = []\<rparr>) \<and>
         travel_expert_chat e fetch req =
           (\<lparr>http_status = 200,
             http_body = Json (JObject [(''response'', JString expert_chat_unavailable)])\<rparr>,
            \<lparr>attempts = 0, delays = []\<rparr>)"
  using assms
  by (cases "json_body req")
     (simp_all add: travel_chat_def travel_expert_chat_def chat_handler_def chat_try_def
        falsy_def chat_reply_def no_trace_def)

text \<open>Claim C9, at a chat request, with a transport that would have answered.\<close>

theorem chat_without_key_witness:
  "OPENAI_API_KEY env_without_key = None \<and> http_method chat_post \<noteq> ''OPTIONS'' \<and>
   travel_chat env_without_key responds_200 chat_post =
     (\<lparr>http_status = 200,
       http_body = Json (JObject [(''response'', JString travel_chat_unavailable)])\<rparr>,
      \<lparr>attempts = 0, delays = []\<rparr>)"
  using chat_without_key[of env_without_key chat_post responds_200]
  by (simp add: env_without_key_def chat_post_def)

text \<open>
  Claim C1 (as stated, refuted). The provider answers every attempt with status 500.
  The comprehensive-itinerary handler throws on the response that is not ok, and its
  \<^verbatim>\<open>catch\<close> answers with status 500.
\<close>

theorem comprehensive_answers_500:
  "comprehensive_itinerary live_env always_500 paris_post =
     (\<lparr>http_status = 500,
       http_body = JsonError (Error ''OpenAI API error: 500 Internal Server Error - '')\<rparr>,
      \<lparr>attempts = 4, delays = [1000, 2000, 4000]\<rparr>) \<and>
   http_status (fst (comprehensive_itinerary live_env always_500 paris_post)) \<noteq> 200"
  by code_simp

lemma chat_handler_status:
  "http_status (fst (chat_handler u e fetch req)) = 200"
  by (auto simp: chat_handler_def chat_try_def preflight_def chat_reply_def
      split: option.splits prod.splits sum.splits)

lemma chat_handler_json:
  "http_method req \<noteq> ''OPTIONS'' \<Longrightarrow> is_json (http_body (fst (chat_handler u e fetch req)))"
  by (auto simp: chat_handler_def chat_try_def chat_reply_def
      split: option.splits prod.splits sum.splits)

lemma suggestions_status:
  "http_status (destination_suggestions e db req) = 200"
  by (simp add: destination_suggestions_def preflight_def split: sum.splits)

lemma suggestions_json:
  "http_method req \<noteq> ''OPTIONS'' \<Longrightarrow> is_json (http_body (destination_suggestions e db req))"
  by (simp add: destination_suggestions_def split: sum.splits)

lemma comprehensive_status:
  "http_method req \<noteq> ''OPTIONS'' \<Longrightarrow>
   is_json (http_body (fst (comprehensive_itinerary e fetch req))) \<and>
   http_status (fst (comprehensive_itinerary e fetch req)) =
     (if isl (fst (comprehensive_try e fetch req)) then 500 else 200)"
  by (cases "comprehensive_try e fetch req"; cases "fst (comprehensive_try e fetch req)")
     (simp_all add: comprehensive_itinerary_def)

lemma comprehensive_unavailable:
  assumes "falsy (OPENAI_API_KEY e) \<or> isl (fst (fetchWithRetry fetch 3)) \<or>
           (\<exists>r. fst (fetchWithRetry fetch 3) = Inr r \<and> \<not> ok r)"
  shows "isl (fst (comprehensive_try e fetch req))"
  using assms
  by (cases "json_body req"; cases "fetchWithRetry fetch 3"; cases "fst (fetchWithRetry fetch 3)")
     (auto simp: comprehensive_try_def)

text \<open>
  Claim C1 (amended). The two chat handlers and the destination-suggestions handler
  answer every request with status 200, and with a JSON body unless the request is
  the preflight. The comprehensive-itinerary handler answers every request other
  than the preflight with a JSON body; its status is 500 when the \<^verbatim>\<open>try\<close> block throws
  and 200 otherwise, and the block throws whenever the provider key is missing, the
  dispatcher throws or the response it returns is not ok.
\<close>

theorem endpoint_statuses:
  "http_status (fst (travel_chat e fetch creq)) = 200 \<and>
   http_status (fst (travel_expert_chat e fetch creq)) = 200 \<and>
   http_status (destination_suggestions e db sreq) = 200 \<and>
   (http_method creq \<noteq> ''OPTIONS'' \<longrightarrow>
      is_json (http_body (fst (travel_chat e fetch creq))) \<and>
      is_json (http_body (fst (travel_expert_chat e fetch creq)))) \<and>
   (http_method sreq \<noteq> ''OPTIONS'' \<longrightarrow> is_json (http_body (destination_suggestions e db sreq))) \<and>
   (http_method ireq \<noteq> ''OPTIONS'' \<longrightarrow>
      is_json (http_body (fst (comprehensive_itinerary e fetch ireq))) \<and>
      http_status (fst (comprehensive_itinerary e fetch ireq)) =
        (if isl (fst (comprehensive_try e fetch ireq)) then 500 else 200) \<and>
      (falsy (OPENAI_API_KEY e) \<or> isl (fst (fetchWithRetry fetch 3)) \<or>
       (\<exists>r. fst (fetchWithRetry fetch 3) = Inr r \<and> \<not> ok r) \<longrightarrow>
         http_status (fst (comprehensive_itinerary e fetch ireq)) = 500))"
  using chat_handler_status[of travel_chat_unavailable e fetch creq]
    chat_handler_status[of expert_chat_unavailable e fetch creq]
    chat_handler_json[of creq travel_chat_unavailable e fetch]
    chat_handler_json[of creq expert_chat_unavailable e fetch]
    suggestions_status[of e db sreq] suggestions_json[of sreq e db]
    comprehensive_status[of ireq e fetch]
    comprehensive_unavailable[of e fetch ireq]
  by (simp add: travel_chat_def travel_expert_chat_def)

text \<open>Claim C1 (amended), at a transport that rejects every call and a failing database.\<close>

theorem endpoint_statuses_witness:
  "http_method chat_post \<noteq> ''OPTIONS'' \<and> http_method empty_query_limit_3 \<noteq> ''OPTIONS'' \<and>
   http_method paris_post \<noteq> ''OPTIONS'' \<and> isl (fst (fetchWithRetry always_rejects 3)) \<and>
   http_status (fst (travel_chat live_env always_rejects chat_post)) = 200 \<and>
   is_json (http_body (fst (travel_chat live_env always_rejects chat_post))) \<and>
   http_status (destination_suggestions live_env down_database empty_query_limit_3) = 200 \<and>
   is_json (http_body (destination_suggestions live_env down_database empty_query_limit_3)) \<and>
   is_json (http_body (fst (comprehensive_itinerary live_env always_rejects paris_post))) \<and>
   http_status (fst (comprehensive_itinerary live_env always_rejects paris_post)) = 500"
proof -
  have r: "isl (fst (fetchWithRetry always_rejects 3))" by code_simp
  show ?thesis
    using endpoint_statuses[of live_env always_rejects chat_post down_database empty_query_limit_3
        paris_post] r
    by (simp add: chat_post_def empty_query_limit_3_def paris_post_def)
qed

section \<open>Properties of the destination search\<close>

lemma popularityScore_suggestion_of:
  "popularityScore (suggestion_of r) = of_int (popularity_score r)"
  by (simp add: popularityScore_def suggestion_of_def)

lemma descending_scores:
  "sorted_wrt (\<lambda>a b. b \<le> a)
     (map popularityScore (map suggestion_of (order_desc_limit n rs)))"
proof -
  have "sorted (map (\<lambda>r. - popularity_score r) (sort_key (\<lambda>r. - popularity_score r) rs))"
    by (rule sorted_sort_key)
  then have "sorted (take n (map (\<lambda>r. - popularity_score r) (sort_key (\<lambda>r. - popularity_score r) rs)))"
    by (rule sorted_wrt_take)
  then have "sorted (map (\<lambda>r. - popularity_score r) (order_desc_limit n rs))"
    by (simp add: order_desc_limit_def take_map)
  then have "sorted_wrt (\<lambda>x y. popularity_score y \<le> popularity_score x) (order_desc_limit n rs)"
    by (simp add: sorted_wrt_map)
  then have "sorted_wrt (\<lambda>x y. (of_int (popularity_score y) :: rat) \<le> of_int (popularity_score x))
               (order_desc_limit n rs)"
    by (simp only: of_int_le_iff)
  then show ?thesis
    by (simp add: sorted_wrt_map popularityScore_suggestion_of)
qed

lemma fallback_scores:
  "map popularityScore fallbackDestinations = [100, 95, 90, 85, 80]"
  by (simp add: fallbackDestinations_def popularityScore_def)

lemma blank_query_path:
  assumes "json_body req = Some sr"
    and "query sr = None \<or> query sr = Some [] \<or> (\<exists>q. query sr = Some q \<and> trim q = [])"
    and "\<not> falsy (SUPABASE_URL e)" and "\<not> falsy (SUPABASE_SERVICE_ROLE_KEY e)"
  shows "suggestions_try e db req =
           Inr (if query_fails db then fallbackDestinations
                else map suggestion_of (order_desc_limit (requested_limit sr) (table_rows db)))"
  using assms
  by (auto simp: suggestions_try_def createClient_def select_popular_def getFallbackSuggestions_def
      Let_def split: option.splits)

text \<open>
  Claim C8 (amended). For a search whose query is absent, empty or blank, with the
  database client configured: when the query of the catalog succeeds, the handler
  sends the first \<open>limit\<close> rows by descending popularity score (\<open>limit\<close> is 10 when the
  request names none), so at most \<open>limit\<close> entries in descending order; when the query
  fails, it sends the five built-in destinations, in descending order, whatever the
  limit.
\<close>

theorem empty_query_suggestions:
  assumes "http_method req \<noteq> ''OPTIONS''" and "json_body req = Some sr"
    and "query sr = None \<or> query sr = Some [] \<or> (\<exists>q. query sr = Some q \<and> trim q = [])"
    and "\<not> falsy (SUPABASE_URL e)" and "\<not> falsy (SUPABASE_SERVICE_ROLE_KEY e)"
  shows "(\<not> query_fails db \<longrightarrow>
            sent_suggestions (destination_suggestions e db req) =
              map suggestion_of
                (take (requested_limit sr) (sort_key (\<lambda>r. - popularity_score r) (table_rows db))) \<and>
            length (sent_suggestions (destination_suggestions e db req)) \<le> requested_limit sr \<and>
            sorted_wrt (\<lambda>a b. b \<le> a)
              (map popularityScore (sent_suggestions (destination_suggestions e db req)))) \<and>
         (query_fails db \<longrightarrow>
            sent_suggestions (destination_suggestions e db req) = fallbackDestinations \<and>
            length (sent_suggestions (destination_suggestions e db req)) = 5 \<and>
            map popularityScore (sent_suggestions (destination_suggestions e db req)) =
              [100, 95, 90, 85, 80])"
proof (intro conjI impI)
  assume live: "\<not> query_fails db"
  have s: "sent_suggestions (destination_suggestions e db req) =
             map suggestion_of (order_desc_limit (requested_limit sr) (table_rows db))"
    using blank_query_path[OF assms(2-5), of db] assms(1) live
    by (simp add: destination_suggestions_def sent_suggestions_def)
  show "sent_suggestions (destination_suggestions e db req) =
          map suggestion_of
            (take (requested_limit sr) (sort_key (\<lambda>r. - popularity_score r) (table_rows db)))"
    using s by (simp add: order_desc_limit_def)
  show "length (sent_suggestions (destination_suggestions e db req)) \<le> requested_limit sr"
    unfolding s by (simp add: order_desc_limit_def)
  show "sorted_wrt (\<lambda>a b. b \<le> a)
          (map popularityScore (sent_suggestions (destination_suggestions e db req)))"
    unfolding s by (rule descending_scores)
next
  assume down: "query_fails db"
  have s: "sent_suggestions (destination_suggestions e db req) = fallbackDestinations"
    using blank_query_path[OF assms(2-5), of db] assms(1) down
    by (simp add: destination_suggestions_def sent_suggestions_def)
  show "sent_suggestions (destination_suggestions e db req) = fallbackDestinations" by (rule s)
  show "length (sent_suggestions (destination_suggestions e db req)) = 5"
    unfolding s by (simp add: fallbackDestinations_def)
  show "map popularityScore (sent_suggestions (destination_suggestions e db req)) =
          [100, 95, 90, 85, 80]"
    unfolding s by (rule fallback_scores)
qed

text \<open>Claim C8 (amended), at limit 2, on a catalog of three rows and on a failing database.\<close>

theorem empty_query_suggestions_witness:
  "map (string_property ''name'')
     (sent_suggestions (destination_suggestions live_env small_database empty_query_limit_2)) =
     [''Paris'', ''London''] \<and>
   length (sent_suggestions (destination_suggestions live_env small_database empty_query_limit_2)) \<le> 2 \<and>
   sent_suggestions (destination_suggestions live_env down_database empty_query_limit_2) =
     fallbackDestinations"
proof -
  have a: "\<not> falsy (SUPABASE_URL live_env)" "\<not> falsy (SUPABASE_SERVICE_ROLE_KEY live_env)"
    by (simp_all add: falsy_def live_env_def)
  have n: "map (string_property ''name'')
     (map suggestion_of (take (requested_limit \<lparr>query = Some [], limit = Some 2\<rparr>)
        (sort_key (\<lambda>r. - popularity_score r) (table_rows small_database)))) = [''Paris'', ''London'']"
    by code_simp
  have l: "requested_limit \<lparr>query = Some [], limit = Some 2\<rparr> = 2"
    by (simp add: requested_limit_def)
  show ?thesis
    using empty_query_suggestions[of empty_query_limit_2 "\<lparr>query = Some [], limit = Some 2\<rparr>"
        live_env small_database, OF _ _ _ a]
      empty_query_suggestions[of empty_query_limit_2 "\<lparr>query = Some [], limit = Some 2\<rparr>"
        live_env down_database, OF _ _ _ a] n l
    by (simp add: empty_query_limit_2_def small_database_def down_database_def)
qed

text \<open>
  Claim C8 (as stated, refuted). The request has an empty query and limit 3, and the
  query of the catalog fails: the handler sends all five built-in destinations.
\<close>

theorem fallback_ignores_limit:
  "requested_limit (the (json_body empty_query_limit_3)) = 3 \<and>
   length (sent_suggestions (destination_suggestions live_env down_database empty_query_limit_3)) = 5 \<and>
   \<not> length (sent_suggestions (destination_suggestions live_env down_database empty_query_limit_3))
       \<le> requested_limit (the (json_body empty_query_limit_3))"
  by code_simp

end
